theory Spec2Isabelle
  imports Main "HOL-Library.AList"
begin

section \<open>XML documents as the loader reads them\<close>

text \<open>
  The loader works on the element tree that tinyxml2 hands out.  An element has a name,
  an ordered attribute list and an ordered list of child elements.  Text nodes, comments
  and line numbers play no part in any decision of the loader (line numbers only decorate
  error messages) and are left out.
\<close>

datatype XMLElement =
  XMLElement (el_name: string) (el_attrs: "(string \<times> string) list") (el_children: "XMLElement list")

text \<open>\<^verbatim>\<open>element->Attribute(name)\<close>: the value of the first attribute of that name, or null.\<close>

definition Attribute :: "XMLElement \<Rightarrow> string \<Rightarrow> string option" where
  "Attribute e n = map_of (el_attrs e) n"

text \<open>The loop \<^verbatim>\<open>FirstChildElement(name) ... NextSiblingElement(name)\<close>.\<close>

definition ChildElements :: "string \<Rightarrow> XMLElement \<Rightarrow> XMLElement list" where
  "ChildElements n e = filter (\<lambda>c. el_name c = n) (el_children e)"

definition ChildrenCount :: "XMLElement \<Rightarrow> nat" where
  "ChildrenCount parent_node = length (el_children parent_node)"

text \<open>\<^verbatim>\<open>element->SetAttribute(name, value)\<close>: overwrite in place, or append a new attribute.\<close>

definition SetAttribute :: "string \<Rightarrow> string \<Rightarrow> XMLElement \<Rightarrow> XMLElement" where
  "SetAttribute k v e = XMLElement (el_name e) (AList.update k v (el_attrs e)) (el_children e)"

text \<open>
  A document after \<^verbatim>\<open>Parse\<close> or \<^verbatim>\<open>LoadFile\<close>: either the error flag is set
  (malformed text, missing file) or there is a possibly absent root element.
\<close>

datatype XMLDocument = LoadError | Parsed "XMLElement option"

fun RootElement :: "XMLDocument \<Rightarrow> XMLElement option" where
  "RootElement LoadError = None"
| "RootElement (Parsed r) = r"

section \<open>Errors\<close>

text \<open>
  Every \<^verbatim>\<open>throw RuntimeError\<close> of the source is one constructor, named after the kind
  of failure; \<open>SchemaError\<close> carries the text handed to \<^verbatim>\<open>ThrowError\<close>.  Undefined
  behaviour of the C++ (a null pointer dereferenced, \<^verbatim>\<open>std::string\<close> built from null) is
  \<open>NullPointer\<close>, and an \<^verbatim>\<open>sprintf\<close> that writes past the end of its buffer is
  \<open>BufferOverrun\<close>; \<open>OutOfRange\<close> is \<^verbatim>\<open>manifests().at(ID)\<close> on a missing key;
  \<open>OutOfFuel\<close> stands for a recursion that does not come back.
\<close>

datatype error =
    ParseError
  | RosUnsupported
  | NoRootElement
  | SchemaError string
  | MainTreeNotFound
  | NotSingleTree
  | MainTreeNotSpecified
  | NullBlackboard
  | TypoError string string string
  | TypeMismatchError string string string
  | UnknownNodeError string
  | ChildAlreadySet
  | OutOfRange
  | NullPointer
  | BufferOverrun
  | OutOfFuel

text \<open>
  \<^verbatim>\<open>sprintf(buffer, ...)\<close> into \<^verbatim>\<open>char buffer[bytes]\<close>: the message and its
  terminating zero have room.
\<close>

definition fits_buffer :: "nat \<Rightarrow> string \<Rightarrow> bool" where
  "fits_buffer bytes message \<longleftrightarrow> length message < bytes"

text \<open>A loop whose body may throw: the first error ends it.\<close>

fun forEach :: "('a \<Rightarrow> 's \<Rightarrow> error + 's) \<Rightarrow> 'a list \<Rightarrow> 's \<Rightarrow> error + 's" where
  "forEach body [] s = Inr s"
| "forEach body (x # xs) s = (case body x s of Inl e \<Rightarrow> Inl e | Inr s' \<Rightarrow> forEach body xs s')"

section \<open>The factory registry\<close>

datatype NodeType = UNDEFINED | ACTION | CONDITION | CONTROL | DECORATOR | SUBTREE

datatype PortType = INPUT | OUTPUT | INOUT

text \<open>
  A type token (\<^verbatim>\<open>const std::type_info*\<close>) is compared by identity and asked for its
  name; the model identifies a token with its demangled name, the one that the error
  message prints.
\<close>

type_synonym type_info = string

record PortInfo =
  port_type :: PortType
  port_info :: "type_info option"

text \<open>
  Unordered maps are association lists with distinct keys.  The maps of the factory are
  not changed while the parser works: the order of such a list is the order in which the
  program iterates over the map.  A map that the parser fills itself
  (\<^verbatim>\<open>remapping_parameters\<close>, the port maps of a configuration) is held in the order
  of insertion; the order in which a loop visits it is fixed by the hash table, not by the
  source, and is the parameter \<open>visit\<close> of the functions that have such a loop.
\<close>

type_synonym PortsRemapping = "(string \<times> string) list"

record TreeNodeManifest =
  manifest_type :: NodeType
  registration_ID :: string
  ports :: "(string \<times> PortInfo) list"

record BehaviorTreeFactory =
  builders :: "string list"
  manifests :: "(string \<times> TreeNodeManifest) list"
  builtinNodes :: "string list"

text \<open>
  Modelled from the spec: \<^verbatim>\<open>toStr(NodeType)\<close> is declared outside the files at hand;
  the kind tags are the ones the spec lists for element names.
\<close>

fun toStr :: "NodeType \<Rightarrow> string" where
  "toStr ACTION = ''Action''"
| "toStr CONDITION = ''Condition''"
| "toStr DECORATOR = ''Decorator''"
| "toStr SUBTREE = ''SubTree''"
| "toStr CONTROL = ''Control''"
| "toStr UNDEFINED = ''Undefined''"

text \<open>\<^verbatim>\<open>map.insert({k, v})\<close> keeps an entry that is already there.\<close>

definition umap_insert :: "'k \<Rightarrow> 'v \<Rightarrow> ('k \<times> 'v) list \<Rightarrow> ('k \<times> 'v) list" where
  "umap_insert k v m = (if k \<in> fst ` set m then m else m @ [(k, v)])"

section \<open>The validator\<close>

text \<open>
  \<^verbatim>\<open>ThrowError\<close> formats \<open>Error at line %d: -> %s\<close> into a buffer of 256 bytes and throws.
  The texts that the source fixes have room there whatever the line.  The one text that
  depends on the document is formatted here explicitly; line numbers are not part of the
  model, and the number is taken to have one digit, as on the first nine lines: with more
  digits the buffer is full earlier.
\<close>

definition ThrowError :: "string \<Rightarrow> error + unit" where
  "ThrowError text =
     (if fits_buffer 256 (''Error at line 1: -> '' @ text) then Inl (SchemaError text) else Inl BufferOverrun)"

text \<open>The checks of one element in \<^verbatim>\<open>recursiveStep\<close> of \<^verbatim>\<open>verifyXML\<close>, before it descends.\<close>

definition verifyNode ::
  "BehaviorTreeFactory \<Rightarrow> (string \<times> XMLElement) list \<Rightarrow> XMLElement \<Rightarrow> error + unit" where
  "verifyNode factory tree_roots node =
    (let children_count = ChildrenCount node; name = el_name node in
     if name = ''Decorator'' then
       (if children_count \<noteq> 1 then Inl (SchemaError ''The node <Decorator> must have exactly 1 child'')
        else if Attribute node ''ID'' = None
          then Inl (SchemaError ''The node <Decorator> must have the attribute [ID]'')
        else Inr ())
     else if name = ''Action'' then
       (if children_count \<noteq> 0 then Inl (SchemaError ''The node <Action> must not have any child'')
        else if Attribute node ''ID'' = None
          then Inl (SchemaError ''The node <Action> must have the attribute [ID]'')
        else Inr ())
     else if name = ''Condition'' then
       (if children_count \<noteq> 0 then Inl (SchemaError ''The node <Condition> must not have any child'')
        else if Attribute node ''ID'' = None
          then Inl (SchemaError ''The node <Condition> must have the attribute [ID]'')
        else Inr ())
     else if name = ''Sequence'' \<or> name = ''SequenceStar'' \<or> name = ''Fallback'' \<or> name = ''FallbackStar'' then
       (if children_count = 0 then Inl (SchemaError ''A Control node must have at least 1 child'')
        else Inr ())
     else if name = ''SubTree'' then
       (if list_ex (\<lambda>child. el_name child \<noteq> ''remap'') (el_children node)
          then Inl (SchemaError ''<SubTree> accept only childs of type <remap>'')
        else if Attribute node ''ID'' = None
          then Inl (SchemaError ''The node <SubTree> must have the attribute [ID]'')
        else Inr ())
     else
       (if map_of (manifests factory) name \<noteq> None \<or> map_of tree_roots name \<noteq> None then Inr ()
        else ThrowError (''Node not recognized: '' @ name)))"

text \<open>\<^verbatim>\<open>recursiveStep\<close> of \<^verbatim>\<open>verifyXML\<close>: the children of a \<open>SubTree\<close> are not visited.\<close>

fun verify_recursiveStep ::
  "BehaviorTreeFactory \<Rightarrow> (string \<times> XMLElement) list \<Rightarrow> XMLElement \<Rightarrow> error + unit"
and verify_children ::
  "BehaviorTreeFactory \<Rightarrow> (string \<times> XMLElement) list \<Rightarrow> XMLElement list \<Rightarrow> error + unit" where
  "verify_recursiveStep factory tree_roots (XMLElement name attrs cs) =
     (case verifyNode factory tree_roots (XMLElement name attrs cs) of
        Inl e \<Rightarrow> Inl e
      | Inr u \<Rightarrow> if name \<noteq> ''SubTree'' then verify_children factory tree_roots cs else Inr ())"
| "verify_children factory tree_roots [] = Inr ()"
| "verify_children factory tree_roots (c # cs) =
     (case verify_recursiveStep factory tree_roots c of
        Inl e \<Rightarrow> Inl e
      | Inr u \<Rightarrow> verify_children factory tree_roots cs)"

text \<open>
  The loop of \<^verbatim>\<open>verifyXML\<close> over the \<open>BehaviorTree\<close> children of the root: it counts
  them, collects their explicit \<open>ID\<close>s and checks every body.
\<close>

definition verifyTree ::
  "BehaviorTreeFactory \<Rightarrow> (string \<times> XMLElement) list \<Rightarrow> XMLElement \<Rightarrow> string list \<times> nat
     \<Rightarrow> error + (string list \<times> nat)" where
  "verifyTree factory tree_roots bt_root acc =
    (let tree_count = snd acc + 1;
         tree_names = (case Attribute bt_root ''ID'' of Some i \<Rightarrow> fst acc @ [i] | None \<Rightarrow> fst acc) in
     if ChildrenCount bt_root \<noteq> 1
       then Inl (SchemaError ''The node <BehaviorTree> must have exactly 1 child'')
     else (case verify_recursiveStep factory tree_roots (hd (el_children bt_root)) of
             Inl e \<Rightarrow> Inl e
           | Inr u \<Rightarrow> Inr (tree_names, tree_count)))"

text \<open>The \<open>TreeNodesModel\<close> checks at the head of \<^verbatim>\<open>verifyXML\<close>.\<close>

definition verifyModel :: "XMLElement \<Rightarrow> error + unit" where
  "verifyModel xml_root =
    (case ChildElements ''TreeNodesModel'' xml_root of
       [] \<Rightarrow> Inr ()
     | [meta_root] \<Rightarrow>
         (if list_ex (\<lambda>node. el_name node \<in> {''Action'', ''Decorator'', ''SubTree'', ''Condition''}
                         \<and> Attribute node ''ID'' = None) (el_children xml_root)
            then Inl (SchemaError ''Error at line %d: -> The attribute [ID] is mandatory'')
          else Inr ())
     | meta_root # meta_sibling # others \<Rightarrow>
         Inl (SchemaError '' Only a single node <TreeNodesModel> is supported''))"

definition verifyXML ::
  "BehaviorTreeFactory \<Rightarrow> (string \<times> XMLElement) list \<Rightarrow> XMLDocument \<Rightarrow> error + unit" where
  "verifyXML factory tree_roots doc =
    (case RootElement doc of
       None \<Rightarrow> Inl NoRootElement
     | Some xml_root \<Rightarrow>
        if el_name xml_root \<noteq> ''root'' then Inl NoRootElement
        else (case verifyModel xml_root of
          Inl e \<Rightarrow> Inl e
        | Inr u \<Rightarrow>
           (case forEach (verifyTree factory tree_roots) (ChildElements ''BehaviorTree'' xml_root) ([], 0) of
              Inl e \<Rightarrow> Inl e
            | Inr (tree_names, tree_count) \<Rightarrow>
               (case Attribute xml_root ''main_tree_to_execute'' of
                  Some main_tree \<Rightarrow>
                    if main_tree \<notin> set tree_names then Inl MainTreeNotFound else Inr ()
                | None \<Rightarrow>
                    if tree_count \<noteq> 1 then Inl NotSingleTree else Inr ()))))"

section \<open>Paths and files\<close>

text \<open>
  Modelled from the spec: the path class (\<^verbatim>\<open>filesystem/path.h\<close>) is outside the files at
  hand.  A path is a flag (absolute or not) and its components; \<open>parent_path\<close> drops the
  last component, \<open>make_absolute\<close> joins a relative path to the working directory, and
  \<open>path_join\<close> is \<^verbatim>\<open>operator/\<close>.
\<close>

record path =
  is_absolute :: bool
  components :: "string list"

fun split_path :: "string \<Rightarrow> string \<Rightarrow> string list" where
  "split_path acc [] = (if acc = [] then [] else [acc])"
| "split_path acc (c # cs) =
     (if c = CHR ''/'' then (if acc = [] then split_path [] cs else acc # split_path [] cs)
      else split_path (acc @ [c]) cs)"

definition path_of_string :: "string \<Rightarrow> path" where
  "path_of_string s = \<lparr>is_absolute = (s \<noteq> [] \<and> hd s = CHR ''/''), components = split_path [] s\<rparr>"

definition parent_path :: "path \<Rightarrow> path" where
  "parent_path p = p\<lparr>components := butlast (components p)\<rparr>"

definition path_join :: "path \<Rightarrow> path \<Rightarrow> path" where
  "path_join a b = a\<lparr>components := components a @ components b\<rparr>"

text \<open>
  What the loader sees of its surroundings: the working directory, the files
  (\<^verbatim>\<open>LoadFile\<close> on a path without a readable document sets the error flag) and, when the
  library is built with ROS, the package resolver.
\<close>

record World =
  getcwd :: path
  files :: "path \<Rightarrow> XMLDocument"
  ros_package_path :: "(string \<Rightarrow> string) option"

definition make_absolute :: "World \<Rightarrow> path \<Rightarrow> path" where
  "make_absolute w p = (if is_absolute p then p else path_join (getcwd w) p)"

definition LoadFile :: "World \<Rightarrow> path \<Rightarrow> XMLDocument" where
  "LoadFile w p = files w (make_absolute w p)"

section \<open>The parser state and the loader\<close>

text \<open>
  \<^verbatim>\<open>XMLParser::Pimpl\<close>.  The factory is a constant reference and is passed beside the
  state.  \<open>tree_roots\<close> holds the elements themselves: documents do not change once
  loaded.  A load that throws is modelled by its error alone.
\<close>

record Pimpl =
  opened_documents :: "XMLDocument list"
  tree_roots :: "(string \<times> XMLElement) list"
  current_path :: path
  suffix_count :: nat

definition Pimpl_init :: "World \<Rightarrow> Pimpl" where
  "Pimpl_init w = \<lparr>opened_documents = [], tree_roots = [], current_path = getcwd w, suffix_count = 0\<rparr>"

text \<open>\<^verbatim>\<open>std::to_string\<close> on a counter that is never negative.\<close>

fun to_string :: "nat \<Rightarrow> string" where
  "to_string n = (if n < 10 then [''0123456789'' ! n]
                  else to_string (n div 10) @ [''0123456789'' ! (n mod 10)])"

declare to_string.simps [simp del]

text \<open>One round of the loop of \<^verbatim>\<open>loadDocImpl\<close> over the \<open>BehaviorTree\<close> elements.\<close>

definition registerTree :: "XMLElement \<Rightarrow> Pimpl \<Rightarrow> Pimpl" where
  "registerTree bt_node st =
    (case Attribute bt_node ''ID'' of
       Some tree_name \<Rightarrow> st\<lparr>tree_roots := umap_insert tree_name bt_node (tree_roots st)\<rparr>
     | None \<Rightarrow>
         st\<lparr>tree_roots := umap_insert (''BehaviorTree_'' @ to_string (suffix_count st)) bt_node (tree_roots st),
            suffix_count := suffix_count st + 1\<rparr>)"

definition registerTrees :: "XMLElement list \<Rightarrow> Pimpl \<Rightarrow> Pimpl" where
  "registerTrees bt_nodes st = fold registerTree bt_nodes st"

text \<open>The file an \<open>include\<close> element names, as the loop of \<^verbatim>\<open>loadDocImpl\<close> works it out.\<close>

definition includePath :: "World \<Rightarrow> path \<Rightarrow> XMLElement \<Rightarrow> error + path" where
  "includePath w cur include_node =
    (case Attribute include_node ''path'' of
       None \<Rightarrow> Inl NullPointer
     | Some p \<Rightarrow>
        (let file_path = path_of_string p in
         case (case Attribute include_node ''ros_pkg'' of
                 None \<Rightarrow> Inr file_path
               | Some pkg \<Rightarrow>
                   (case ros_package_path w of
                      None \<Rightarrow> Inl RosUnsupported
                    | Some getPath \<Rightarrow>
                        if is_absolute file_path then Inr file_path
                        else Inr (path_join (path_of_string (getPath pkg)) file_path))) of
           Inl e \<Rightarrow> Inl e
         | Inr file_path \<Rightarrow>
             Inr (if \<not> is_absolute file_path then path_join cur file_path else file_path)))"

fun loadDocImpl ::
  "nat \<Rightarrow> World \<Rightarrow> BehaviorTreeFactory \<Rightarrow> XMLDocument \<Rightarrow> Pimpl \<Rightarrow> error + Pimpl" where
  "loadDocImpl 0 w factory doc st = Inl OutOfFuel"
| "loadDocImpl (Suc fuel) w factory doc st =
    (case doc of
       LoadError \<Rightarrow> Inl ParseError
     | Parsed None \<Rightarrow> Inl NullPointer
     | Parsed (Some xml_root) \<Rightarrow>
        (case forEach
                (\<lambda>include_node s.
                   case includePath w (current_path s) include_node of
                     Inl e \<Rightarrow> Inl e
                   | Inr file_path \<Rightarrow>
                       loadDocImpl fuel w factory (LoadFile w file_path)
                         (s\<lparr>opened_documents := opened_documents s @ [LoadFile w file_path]\<rparr>))
                (ChildElements ''include'' xml_root) st of
           Inl e \<Rightarrow> Inl e
         | Inr st1 \<Rightarrow>
            (let st2 = registerTrees (ChildElements ''BehaviorTree'' xml_root) st1 in
             case verifyXML factory (tree_roots st2) doc of
               Inl e \<Rightarrow> Inl e
             | Inr u \<Rightarrow> Inr st2)))"

definition loadFromFile ::
  "nat \<Rightarrow> World \<Rightarrow> BehaviorTreeFactory \<Rightarrow> string \<Rightarrow> Pimpl \<Rightarrow> error + Pimpl" where
  "loadFromFile fuel w factory filename st =
    (let doc = LoadFile w (path_of_string filename);
         file_path = path_of_string filename in
     loadDocImpl fuel w factory doc
       (st\<lparr>opened_documents := opened_documents st @ [doc],
           current_path := make_absolute w (parent_path file_path)\<rparr>))"

text \<open>The text is handed over as tinyxml2 parsed it.\<close>

definition loadFromText ::
  "nat \<Rightarrow> World \<Rightarrow> BehaviorTreeFactory \<Rightarrow> XMLDocument \<Rightarrow> Pimpl \<Rightarrow> error + Pimpl" where
  "loadFromText fuel w factory doc st =
     loadDocImpl fuel w factory doc (st\<lparr>opened_documents := opened_documents st @ [doc]\<rparr>)"

section \<open>Blackboards\<close>

text \<open>
  Modelled from the spec: the blackboard class is outside the files at hand.  It is a
  typed key-value store with at most one parent; a key that has a subtree remapping is
  redirected to the external key in the parent.  Blackboards are shared and mutated, so
  they live in a store: the \<open>blackboard_stack\<close> of the tree under construction, where a
  pointer is a position.  A parent is always older than its child.
\<close>

record Blackboard =
  bb_parent :: "nat option"
  bb_types :: "(string \<times> type_info) list"
  bb_remapping :: "(string \<times> string) list"

definition Blackboard_create :: "nat \<Rightarrow> Blackboard" where
  "Blackboard_create parent = \<lparr>bb_parent = Some parent, bb_types = [], bb_remapping = []\<rparr>"

definition addSubtreeRemapping :: "string \<Rightarrow> string \<Rightarrow> Blackboard \<Rightarrow> Blackboard" where
  "addSubtreeRemapping internal external bb = bb\<lparr>bb_remapping := bb_remapping bb @ [(internal, external)]\<rparr>"

function resolveKey :: "Blackboard list \<Rightarrow> nat \<Rightarrow> string \<Rightarrow> nat \<times> string" where
  "resolveKey stack b key =
    (if b < length stack then
       (case bb_parent (stack ! b) of
          None \<Rightarrow> (b, key)
        | Some p \<Rightarrow>
           (case map_of (bb_remapping (stack ! b)) key of
              None \<Rightarrow> (b, key)
            | Some external \<Rightarrow> if p < b then resolveKey stack p external else (b, key)))
     else (b, key))"
  by pat_completeness auto
termination
  by (relation "measure (\<lambda>(stack, b, key). b)") auto

declare resolveKey.simps [simp del]

definition portType :: "Blackboard list \<Rightarrow> nat \<Rightarrow> string \<Rightarrow> type_info option" where
  "portType stack b key =
    (let slot = resolveKey stack b key in
     if fst slot < length stack then map_of (bb_types (stack ! fst slot)) (snd slot) else None)"

definition setPortType :: "Blackboard list \<Rightarrow> nat \<Rightarrow> string \<Rightarrow> type_info \<Rightarrow> Blackboard list" where
  "setPortType stack b key new_type =
    (let slot = resolveKey stack b key in
     if fst slot < length stack
     then stack[fst slot := (stack ! fst slot)\<lparr>bb_types := AList.update (snd slot) new_type (bb_types (stack ! fst slot))\<rparr>]
     else stack)"

section \<open>Nodes and trees\<close>

record NodeConfiguration =
  cfg_blackboard :: "nat option"
  input_ports :: "(string \<times> string) list"
  output_ports :: "(string \<times> string) list"

text \<open>
  What the loader and the writer read of a node: \<^verbatim>\<open>type()\<close>,
  \<^verbatim>\<open>registrationName()\<close>, \<^verbatim>\<open>name()\<close>, \<^verbatim>\<open>config()\<close> and the child pointers.  Nodes
  live in \<open>nodes\<close> of the tree; a node pointer is a position there.
\<close>

record TreeNode =
  node_type :: NodeType
  registrationName :: string
  node_name :: string
  node_config :: NodeConfiguration
  node_children :: "nat list"

record Tree =
  root_node :: "nat option"
  nodes :: "TreeNode list"
  blackboard_stack :: "Blackboard list"

text \<open>
  Modelled from the spec: the node classes and the factory's \<^verbatim>\<open>instantiateTreeNode\<close> are
  outside the files at hand.  The factory builds a node of the manifest's kind, identified
  by registration ID and instance name, carrying the configuration.  The subtree
  placeholder has no registration ID and an empty configuration.  A control node appends
  a child; a decorator or subtree placeholder holds one child, and a second
  \<^verbatim>\<open>setChild\<close> is an error of the caller that the node reports.
\<close>

definition instantiateTreeNode ::
  "TreeNodeManifest \<Rightarrow> string \<Rightarrow> string \<Rightarrow> NodeConfiguration \<Rightarrow> TreeNode" where
  "instantiateTreeNode manifest instance_name ID config =
     \<lparr>node_type = manifest_type manifest, registrationName = ID, node_name = instance_name,
      node_config = config, node_children = []\<rparr>"

definition DecoratorSubtreeNode :: "string \<Rightarrow> TreeNode" where
  "DecoratorSubtreeNode instance_name =
     \<lparr>node_type = SUBTREE, registrationName = [], node_name = instance_name,
      node_config = \<lparr>cfg_blackboard = None, input_ports = [], output_ports = []\<rparr>,
      node_children = []\<rparr>"

definition is_ControlNode :: "TreeNode \<Rightarrow> bool" where
  "is_ControlNode n = (node_type n = CONTROL)"

definition is_DecoratorNode :: "TreeNode \<Rightarrow> bool" where
  "is_DecoratorNode n = (node_type n = DECORATOR \<or> node_type n = SUBTREE)"

definition addChild :: "nat \<Rightarrow> TreeNode \<Rightarrow> TreeNode" where
  "addChild child n = n\<lparr>node_children := node_children n @ [child]\<rparr>"

definition setChild :: "nat \<Rightarrow> TreeNode \<Rightarrow> error + TreeNode" where
  "setChild child n = (if node_children n \<noteq> [] then Inl ChildAlreadySet else Inr (n\<lparr>node_children := [child]\<rparr>))"

text \<open>
  Modelled from the spec: \<^verbatim>\<open>TreeNode::getRemappedKey\<close> is outside the files at hand.  A
  value of the form \<open>{key}\<close> is a blackboard reference to \<open>key\<close>; anything else is a
  literal.
\<close>

definition getRemappedKey :: "string \<Rightarrow> string \<Rightarrow> bool \<times> string" where
  "getRemappedKey port_name remapping_value =
    (if 2 \<le> length remapping_value \<and> hd remapping_value = CHR ''{'' \<and> last remapping_value = CHR ''}''
     then (True, butlast (tl remapping_value)) else (False, []))"

section \<open>The instantiator\<close>

text \<open>The attributes that become \<open>remapping_parameters\<close>.\<close>

definition remappingParameters :: "XMLElement \<Rightarrow> (string \<times> string) list" where
  "remappingParameters element =
     fold (\<lambda>att m. if fst att \<noteq> ''ID'' \<and> fst att \<noteq> ''name'' then AList.update (fst att) (snd att) m else m)
       (el_attrs element) []"

text \<open>
  The first loop under a registered builder: every remapped name is a port of the manifest.
  The first name met that is none is reported; the message is formatted into a buffer of
  1024 bytes.
\<close>

definition typo_message :: "string \<Rightarrow> string \<Rightarrow> string \<Rightarrow> string" where
  "typo_message port ID instance_name =
     ''Possible typo. In the XML, you specified the port ['' @ port @ ''] for node ['' @ ID @ '' / ''
       @ instance_name
       @ ''], but the manifest of this node does not contain a port with this name.''"

definition checkRemapping ::
  "(PortsRemapping \<Rightarrow> PortsRemapping) \<Rightarrow> TreeNodeManifest \<Rightarrow> string \<Rightarrow> string \<Rightarrow> PortsRemapping
     \<Rightarrow> error + unit" where
  "checkRemapping visit manifest ID instance_name remapping_parameters =
    (case find (\<lambda>remapping_it. map_of (ports manifest) (fst remapping_it) = None)
            (visit remapping_parameters) of
       Some remapping_it \<Rightarrow>
         if fits_buffer 1024 (typo_message (fst remapping_it) ID instance_name)
         then Inl (TypoError (fst remapping_it) ID instance_name)
         else Inl BufferOverrun
     | None \<Rightarrow> Inr ())"

text \<open>
  One round of the second loop: the port's type is set in the blackboard, or compared.  The
  message of a mismatch is formatted into a buffer of 1024 bytes.
\<close>

definition mismatch_message :: "string \<Rightarrow> type_info \<Rightarrow> type_info \<Rightarrow> string" where
  "mismatch_message port_key prev_type info =
     ''The creation of the tree failed because the port ['' @ port_key
       @ ''] was initially created with type ['' @ prev_type @ ''] and, later, type ['' @ info
       @ ''] was used somewhere else.''"

definition initPortType ::
  "(string \<times> string) list \<Rightarrow> nat \<Rightarrow> string \<times> PortInfo \<Rightarrow> Blackboard list \<Rightarrow> error + Blackboard list" where
  "initPortType remapping_parameters blackboard port_it stack =
    (let port_name = fst port_it; port = snd port_it in
     case port_info port of
       None \<Rightarrow> Inr stack
     | Some info \<Rightarrow>
        (case map_of remapping_parameters port_name of
           None \<Rightarrow> Inr stack
         | Some remapping_value \<Rightarrow>
            (let pair = getRemappedKey port_name remapping_value in
             if fst pair then
               (let port_key = snd pair in
                case portType stack blackboard port_key of
                  None \<Rightarrow> Inr (setPortType stack blackboard port_key info)
                | Some prev_type \<Rightarrow>
                    if prev_type \<noteq> info then
                      (if fits_buffer 1024 (mismatch_message port_key prev_type info)
                       then Inl (TypeMismatchError port_key prev_type info)
                       else Inl BufferOverrun)
                    else Inr stack)
             else Inr stack)))"

text \<open>The third loop: the configuration's port maps.\<close>

definition addPort :: "TreeNodeManifest \<Rightarrow> string \<times> string \<Rightarrow> NodeConfiguration \<Rightarrow> NodeConfiguration" where
  "addPort manifest remap_it config =
    (case map_of (ports manifest) (fst remap_it) of
       None \<Rightarrow> config
     | Some port \<Rightarrow>
        (let c1 = (if port_type port \<noteq> OUTPUT
                   then config\<lparr>input_ports := umap_insert (fst remap_it) (snd remap_it) (input_ports config)\<rparr>
                   else config) in
         if port_type port \<noteq> INPUT
         then c1\<lparr>output_ports := umap_insert (fst remap_it) (snd remap_it) (output_ports c1)\<rparr>
         else c1))"

text \<open>The end of \<^verbatim>\<open>createNodeFromXML\<close>: the new node, which will stand at \<open>child\<close>, is given to its parent.\<close>

definition attachChild :: "nat option \<Rightarrow> nat \<Rightarrow> TreeNode list \<Rightarrow> error + TreeNode list" where
  "attachChild node_parent child ns =
    (case node_parent of
       None \<Rightarrow> Inr ns
     | Some p \<Rightarrow>
        if length ns \<le> p then Inl NullPointer
        else if is_ControlNode (ns ! p) then Inr (ns[p := addChild child (ns ! p)])
        else if is_DecoratorNode (ns ! p) then
          (case setChild child (ns ! p) of Inl e \<Rightarrow> Inl e | Inr parent \<Rightarrow> Inr (ns[p := parent]))
        else Inr ns)"

text \<open>
  The head of \<^verbatim>\<open>createNodeFromXML\<close>: the registration ID and the instance name of an
  element.  An \<open>ID\<close> attribute that is read and is not there is a null pointer given to
  \<^verbatim>\<open>std::string\<close>.
\<close>

definition elementID :: "XMLElement \<Rightarrow> string option" where
  "elementID element =
    (let element_name = el_name element in
     if element_name = ''Action'' \<or> element_name = ''Decorator'' \<or> element_name = ''Condition''
     then Attribute element ''ID'' else Some element_name)"

definition elementInstanceName :: "XMLElement \<Rightarrow> string \<Rightarrow> string option" where
  "elementInstanceName element ID =
    (if el_name element = ''SubTree'' then Attribute element ''ID''
     else (case Attribute element ''name'' of Some attr_alias \<Rightarrow> Some attr_alias | None \<Rightarrow> Some ID))"

text \<open>
  The middle of \<^verbatim>\<open>createNodeFromXML\<close>: the node is built by the factory, or is a subtree
  placeholder, or the ID is unknown.  Only the blackboards change here.
\<close>

definition makeNode ::
  "(PortsRemapping \<Rightarrow> PortsRemapping) \<Rightarrow> BehaviorTreeFactory \<Rightarrow> (string \<times> XMLElement) list
     \<Rightarrow> string \<Rightarrow> string \<Rightarrow> PortsRemapping
     \<Rightarrow> nat \<Rightarrow> Blackboard list \<Rightarrow> error + (TreeNode \<times> Blackboard list)" where
  "makeNode visit factory roots ID instance_name remapping_parameters blackboard stack =
    (let config = \<lparr>cfg_blackboard = Some blackboard, input_ports = [], output_ports = []\<rparr> in
     if ID \<in> set (builders factory) then
       (case map_of (manifests factory) ID of
          None \<Rightarrow> Inl OutOfRange
        | Some manifest \<Rightarrow>
           (case checkRemapping visit manifest ID instance_name remapping_parameters of
              Inl e \<Rightarrow> Inl e
            | Inr u \<Rightarrow>
               (case forEach (initPortType remapping_parameters blackboard) (ports manifest) stack of
                  Inl e \<Rightarrow> Inl e
                | Inr stack' \<Rightarrow>
                    Inr (instantiateTreeNode manifest instance_name ID
                           (fold (addPort manifest) (visit remapping_parameters) config),
                         stack'))))
     else if map_of roots ID \<noteq> None then Inr (DecoratorSubtreeNode instance_name, stack)
     else Inl (UnknownNodeError ID))"

text \<open>
  \<^verbatim>\<open>createNodeFromXML\<close>.  It returns the new node and the tree with the blackboards and
  the parent updated; the caller appends the node to \<open>nodes\<close> at once, so the pointer given
  to the parent is the length of \<open>nodes\<close>.
\<close>

definition createNodeFromXML ::
  "(PortsRemapping \<Rightarrow> PortsRemapping) \<Rightarrow> BehaviorTreeFactory \<Rightarrow> (string \<times> XMLElement) list
     \<Rightarrow> XMLElement \<Rightarrow> nat \<Rightarrow> nat option \<Rightarrow> Tree
     \<Rightarrow> error + (TreeNode \<times> Tree)" where
  "createNodeFromXML visit factory roots element blackboard node_parent t =
    (case elementID element of
       None \<Rightarrow> Inl NullPointer
     | Some ID \<Rightarrow>
     (case elementInstanceName element ID of
       None \<Rightarrow> Inl NullPointer
     | Some instance_name \<Rightarrow>
     (case makeNode visit factory roots ID instance_name (remappingParameters element) blackboard
             (blackboard_stack t) of
        Inl e \<Rightarrow> Inl e
      | Inr (child_node, stack) \<Rightarrow>
         (case attachChild node_parent (length (nodes t)) (nodes t) of
            Inl e \<Rightarrow> Inl e
          | Inr ns \<Rightarrow> Inr (child_node, t\<lparr>blackboard_stack := stack, nodes := ns\<rparr>)))))"

text \<open>The subtree branch of \<^verbatim>\<open>recursiveStep\<close>, up to the push of the new blackboard.\<close>

definition addRemap :: "XMLElement \<Rightarrow> Blackboard \<Rightarrow> error + Blackboard" where
  "addRemap remap_el new_bb =
    (case Attribute remap_el ''internal'' of
       None \<Rightarrow> Inl NullPointer
     | Some internal \<Rightarrow>
        (case Attribute remap_el ''external'' of
           None \<Rightarrow> Inl NullPointer
         | Some external \<Rightarrow> Inr (addSubtreeRemapping internal external new_bb)))"

definition pushSubtreeBlackboard :: "XMLElement \<Rightarrow> Tree \<Rightarrow> error + (nat \<times> Tree)" where
  "pushSubtreeBlackboard element output_tree =
    (if blackboard_stack output_tree = [] then Inl NullPointer
     else
       (let parent_bb = length (blackboard_stack output_tree) - 1 in
        case forEach addRemap (ChildElements ''remap'' element) (Blackboard_create parent_bb) of
          Inl e \<Rightarrow> Inl e
        | Inr new_bb \<Rightarrow>
            Inr (length (blackboard_stack output_tree),
                 output_tree\<lparr>blackboard_stack := blackboard_stack output_tree @ [new_bb]\<rparr>)))"

text \<open>\<^verbatim>\<open>tree_roots[tree_ID]->FirstChildElement()\<close>, the element the recursion starts from.\<close>

definition treeRootElement :: "(string \<times> XMLElement) list \<Rightarrow> string \<Rightarrow> error + XMLElement" where
  "treeRootElement roots tree_ID =
    (case map_of roots tree_ID of
       None \<Rightarrow> Inl NullPointer
     | Some bt_node \<Rightarrow> (case el_children bt_node of [] \<Rightarrow> Inl NullPointer | root_element # others \<Rightarrow> Inr root_element))"

text \<open>
  \<^verbatim>\<open>recursiveStep\<close> of \<^verbatim>\<open>recursivelyCreateTree\<close>.  The fuel bounds the depth of the
  recursion: a tree that refers to itself as a subtree never finishes.
\<close>

fun create_recursiveStep ::
  "(PortsRemapping \<Rightarrow> PortsRemapping) \<Rightarrow> nat \<Rightarrow> BehaviorTreeFactory \<Rightarrow> (string \<times> XMLElement) list
     \<Rightarrow> nat \<Rightarrow> nat option \<Rightarrow> XMLElement \<Rightarrow> Tree
     \<Rightarrow> error + Tree" where
  "create_recursiveStep visit 0 factory roots blackboard parent element output_tree = Inl OutOfFuel"
| "create_recursiveStep visit (Suc fuel) factory roots blackboard parent element output_tree =
    (case createNodeFromXML visit factory roots element blackboard parent output_tree of
       Inl e \<Rightarrow> Inl e
     | Inr (node, t1) \<Rightarrow>
        (let node_ptr = length (nodes t1);
             t2 = t1\<lparr>nodes := nodes t1 @ [node]\<rparr> in
         if node_type node = SUBTREE then
           (case pushSubtreeBlackboard element t2 of
              Inl e \<Rightarrow> Inl e
            | Inr (new_bb, t3) \<Rightarrow>
               (case treeRootElement roots (node_name node) of
                  Inl e \<Rightarrow> Inl e
                | Inr root_element \<Rightarrow>
                    create_recursiveStep visit fuel factory roots new_bb (Some node_ptr) root_element t3))
         else
           forEach (\<lambda>child_element s.
                      create_recursiveStep visit fuel factory roots blackboard (Some node_ptr) child_element s)
             (el_children element) t2))"

definition recursivelyCreateTree ::
  "(PortsRemapping \<Rightarrow> PortsRemapping) \<Rightarrow> nat \<Rightarrow> BehaviorTreeFactory \<Rightarrow> (string \<times> XMLElement) list
     \<Rightarrow> string \<Rightarrow> Tree \<Rightarrow> nat \<Rightarrow> nat option
     \<Rightarrow> error + Tree" where
  "recursivelyCreateTree visit fuel factory roots tree_ID output_tree blackboard root_parent =
    (case treeRootElement roots tree_ID of
       Inl e \<Rightarrow> Inl e
     | Inr root_element \<Rightarrow>
         create_recursiveStep visit fuel factory roots blackboard root_parent root_element output_tree)"

definition instantiateTree ::
  "(PortsRemapping \<Rightarrow> PortsRemapping) \<Rightarrow> nat \<Rightarrow> BehaviorTreeFactory \<Rightarrow> Pimpl \<Rightarrow> Blackboard option
     \<Rightarrow> error + Tree" where
  "instantiateTree visit fuel factory st root_blackboard =
    (case opened_documents st of
       [] \<Rightarrow> Inl NullPointer
     | doc # docs \<Rightarrow>
    (case RootElement doc of
       None \<Rightarrow> Inl NullPointer
     | Some xml_root \<Rightarrow>
    (case (case Attribute xml_root ''main_tree_to_execute'' of
             Some m \<Rightarrow> Inr m
           | None \<Rightarrow> if length (tree_roots st) = 1 then Inr (fst (hd (tree_roots st)))
                     else Inl MainTreeNotSpecified) of
       Inl e \<Rightarrow> Inl e
     | Inr main_tree_ID \<Rightarrow>
    (case root_blackboard of
       None \<Rightarrow> Inl NullBlackboard
     | Some bb \<Rightarrow>
        (case recursivelyCreateTree visit fuel factory (tree_roots st) main_tree_ID
                \<lparr>root_node = None, nodes = [], blackboard_stack = [bb]\<rparr> 0 None of
           Inl e \<Rightarrow> Inl e
         | Inr output_tree \<Rightarrow>
             Inr (if nodes output_tree \<noteq> [] then output_tree\<lparr>root_node := Some 0\<rparr> else output_tree))))))"

section \<open>The writer\<close>

text \<open>
  The element of one node in \<^verbatim>\<open>recursiveVisitor\<close>: its name and its attributes, before
  the children are added.
\<close>

definition nodeElement ::
  "(PortsRemapping \<Rightarrow> PortsRemapping) \<Rightarrow> BehaviorTreeFactory \<Rightarrow> bool \<Rightarrow> TreeNode \<Rightarrow> XMLElement" where
  "nodeElement visit factory compact_representation node =
    (let node_ID = registrationName node;
         name = node_name node;
         type_tag =
           (if node_type node = CONTROL then node_ID
            else if compact_representation \<and> node_ID \<in> fst ` set (manifests factory) then node_ID
            else toStr (node_type node));
         e0 = XMLElement type_tag [] [];
         e1 = (if type_tag \<noteq> node_ID \<and> node_ID \<noteq> [] then SetAttribute ''ID'' node_ID e0 else e0);
         e2 = (if type_tag \<noteq> name \<and> name \<noteq> [] \<and> name \<noteq> node_ID then SetAttribute ''name'' name e1 else e1);
         e3 = fold (\<lambda>port_it. SetAttribute (fst port_it) (snd port_it))
                (visit (input_ports (node_config node))) e2
     in fold (\<lambda>port_it e. if fst port_it \<notin> fst ` set (input_ports (node_config node))
                           then SetAttribute (fst port_it) (snd port_it) e else e)
          (visit (output_ports (node_config node))) e3)"

text \<open>
  \<^verbatim>\<open>recursiveVisitor\<close>: node pointers are positions in \<open>ns\<close>; a decorator without a child
  hands out a null pointer, which the visitor dereferences.
\<close>

fun recursiveVisitor ::
  "(PortsRemapping \<Rightarrow> PortsRemapping) \<Rightarrow> nat \<Rightarrow> BehaviorTreeFactory \<Rightarrow> bool \<Rightarrow> TreeNode list \<Rightarrow> nat
     \<Rightarrow> error + XMLElement" where
  "recursiveVisitor visit 0 factory compact_representation ns node = Inl OutOfFuel"
| "recursiveVisitor visit (Suc fuel) factory compact_representation ns node =
    (if length ns \<le> node then Inl NullPointer
     else
      (let element = nodeElement visit factory compact_representation (ns ! node) in
       if is_ControlNode (ns ! node) then
         (case forEach
                 (\<lambda>child els.
                    case recursiveVisitor visit fuel factory compact_representation ns child of
                      Inl e \<Rightarrow> Inl e
                    | Inr el \<Rightarrow> Inr (els @ [el]))
                 (node_children (ns ! node)) [] of
            Inl e \<Rightarrow> Inl e
          | Inr els \<Rightarrow> Inr (XMLElement (el_name element) (el_attrs element) els))
       else if is_DecoratorNode (ns ! node) then
         (case node_children (ns ! node) of
            [] \<Rightarrow> Inl NullPointer
          | child # others \<Rightarrow>
             (case recursiveVisitor visit fuel factory compact_representation ns child of
                Inl e \<Rightarrow> Inl e
              | Inr el \<Rightarrow> Inr (XMLElement (el_name element) (el_attrs element) [el])))
       else Inr element))"

text \<open>The \<open>TreeNodesModel\<close> section: the port names of a manifest, by direction.\<close>

definition appendPort :: "string \<times> PortInfo \<Rightarrow> string \<times> string \<times> string \<Rightarrow> string \<times> string \<times> string" where
  "appendPort port acc =
    (case acc of (in_ports_list, out_ports_list, inout_ports_list) \<Rightarrow>
      (case port_type (snd port) of
         INPUT \<Rightarrow> (in_ports_list @ fst port @ '';'', out_ports_list, inout_ports_list)
       | OUTPUT \<Rightarrow> (in_ports_list, out_ports_list @ fst port @ '';'', inout_ports_list)
       | INOUT \<Rightarrow> (in_ports_list, out_ports_list, inout_ports_list @ fst port @ '';'')))"

definition modelElement :: "TreeNodeManifest \<Rightarrow> XMLElement" where
  "modelElement model =
    (let e0 = SetAttribute ''ID'' (registration_ID model) (XMLElement (toStr (manifest_type model)) [] []) in
     case fold appendPort (ports model) ([], [], []) of
       (in_ports_list, out_ports_list, inout_ports_list) \<Rightarrow>
        (let e1 = (if in_ports_list \<noteq> [] then SetAttribute ''input_ports'' (butlast in_ports_list) e0 else e0);
             e2 = (if out_ports_list \<noteq> [] then SetAttribute ''output_ports'' (butlast out_ports_list) e1 else e1)
         in if inout_ports_list \<noteq> [] then SetAttribute ''inout_ports'' (butlast inout_ports_list) e2 else e2))"

definition addModel ::
  "BehaviorTreeFactory \<Rightarrow> string \<times> TreeNodeManifest \<Rightarrow> XMLElement list \<Rightarrow> XMLElement list" where
  "addModel factory model_it els =
    (if fst model_it \<in> set (builtinNodes factory) then els
     else if manifest_type (snd model_it) = CONTROL then els
     else els @ [modelElement (snd model_it)])"

definition treeNodesModel :: "BehaviorTreeFactory \<Rightarrow> XMLElement" where
  "treeNodesModel factory = XMLElement ''TreeNodesModel'' [] (fold (addModel factory) (manifests factory) [])"

text \<open>
  \<^verbatim>\<open>writeXML\<close>.  The root node is a pointer into \<open>ns\<close> or null.  The document is
  built and then printed by \<^verbatim>\<open>XMLPrinter\<close> of tinyxml2, which is outside the files at
  hand: the printer is the parameter \<open>Print\<close>, and the result is the text that it makes
  of the document.
\<close>

definition writeXML ::
  "(XMLDocument \<Rightarrow> 'text) \<Rightarrow> (PortsRemapping \<Rightarrow> PortsRemapping) \<Rightarrow> nat \<Rightarrow> BehaviorTreeFactory
     \<Rightarrow> TreeNode list \<Rightarrow> nat option \<Rightarrow> bool \<Rightarrow> error + 'text" where
  "writeXML Print visit fuel factory ns root compact_representation =
    (case (case root of
             None \<Rightarrow> Inr []
           | Some r \<Rightarrow>
              (case recursiveVisitor visit fuel factory compact_representation ns r of
                 Inl e \<Rightarrow> Inl e
               | Inr el \<Rightarrow> Inr [XMLElement ''BehaviorTree'' [] [el]])) of
       Inl e \<Rightarrow> Inl e
     | Inr bt_root \<Rightarrow>
         Inr (Print (Parsed (Some (XMLElement ''root'' [] (bt_root @ [treeNodesModel factory]))))))"

section \<open>Reference notions used in the statements\<close>

text \<open>
  The spec's wording of the port lists of the \<open>TreeNodesModel\<close> section: the names of one
  direction, separated by semicolons, under an attribute that is left out when there is no
  such port.
\<close>

fun spec_join :: "string list \<Rightarrow> string" where
  "spec_join [] = []"
| "spec_join [x] = x"
| "spec_join (x # y # ys) = x @ '';'' @ spec_join (y # ys)"

definition spec_group :: "string \<Rightarrow> PortType \<Rightarrow> TreeNodeManifest \<Rightarrow> (string \<times> string) list" where
  "spec_group attr dir model =
    (let names = map fst (filter (\<lambda>p. port_type (snd p) = dir) (ports model)) in
     if names = [] then [] else [(attr, spec_join names)])"

text \<open>
  The spec's wording of the section: an element per manifest that is listed, named after
  the kind, with the \<open>ID\<close> and the port lists; the manifests listed are those that are
  neither built in nor of kind Control, in the registry's order.
\<close>

definition spec_model :: "TreeNodeManifest \<Rightarrow> XMLElement" where
  "spec_model model =
     XMLElement (toStr (manifest_type model))
       ((''ID'', registration_ID model) # spec_group ''input_ports'' INPUT model
          @ spec_group ''output_ports'' OUTPUT model @ spec_group ''inout_ports'' INOUT model)
       []"

definition spec_listed :: "BehaviorTreeFactory \<Rightarrow> TreeNodeManifest list" where
  "spec_listed f =
     map snd (filter (\<lambda>m. fst m \<notin> set (builtinNodes f) \<and> manifest_type (snd m) \<noteq> CONTROL) (manifests f))"

definition spec_section :: "BehaviorTreeFactory \<Rightarrow> XMLElement" where
  "spec_section f = XMLElement ''TreeNodesModel'' [] (map spec_model (spec_listed f))"

text \<open>What the writer's loop has appended for one direction, before the last separator is cut.\<close>

definition acc_ports :: "PortType \<Rightarrow> (string \<times> PortInfo) list \<Rightarrow> string" where
  "acc_ports dir ps = concat (map (\<lambda>p. fst p @ '';'') (filter (\<lambda>p. port_type (snd p) = dir) ps))"

text \<open>
  The \<open>ID\<close>s that the \<open>BehaviorTree\<close> elements of one document carry themselves, and the
  name under which the loader enters a \<open>BehaviorTree\<close> element in \<open>tree_roots\<close>.
\<close>

definition spec_own_tree_ids :: "XMLElement \<Rightarrow> string list" where
  "spec_own_tree_ids xml_root =
     List.map_filter (\<lambda>bt. Attribute bt ''ID'') (ChildElements ''BehaviorTree'' xml_root)"

definition spec_tree_name :: "XMLElement \<Rightarrow> Pimpl \<Rightarrow> string" where
  "spec_tree_name bt_node st =
     (case Attribute bt_node ''ID'' of
        Some i \<Rightarrow> i
      | None \<Rightarrow> ''BehaviorTree_'' @ to_string (suffix_count st))"

text \<open>
  How \<open>nodes\<close> looks after an element has been worked through that was given the parent
  \<open>parent\<close>: the nodes that were there are as before, but for the parent, which may have
  got the first new node as a further child; every new node comes before its children; the
  children of a new node are in rising order; and no child of a node before a new node
  \<open>p\<close> stands between \<open>p\<close> and one of its children.
\<close>

definition same_node :: "TreeNode \<Rightarrow> TreeNode \<Rightarrow> bool" where
  "same_node a b \<longleftrightarrow>
     node_type a = node_type b \<and> registrationName a = registrationName b
   \<and> node_name a = node_name b \<and> node_config a = node_config b"


text \<open>
  How the blackboards may change while nodes are made: none is taken away, parent and
  remappings stay, a type once set for a key stays, and every new blackboard has the one
  before it as its parent.
\<close>

definition bb_extends :: "Blackboard list \<Rightarrow> Blackboard list \<Rightarrow> bool" where
  "bb_extends s s' \<longleftrightarrow>
     length s \<le> length s'
   \<and> (\<forall>i < length s. bb_parent (s' ! i) = bb_parent (s ! i) \<and> bb_remapping (s' ! i) = bb_remapping (s ! i)
          \<and> (\<forall>k ty. map_of (bb_types (s ! i)) k = Some ty \<longrightarrow> map_of (bb_types (s' ! i)) k = Some ty))
   \<and> (\<forall>i. length s \<le> i \<and> i < length s' \<longrightarrow> bb_parent (s' ! i) = Some (i - 1))"

text \<open>The one step of \<open>resolveKey\<close>.\<close>

definition redirected :: "Blackboard list \<Rightarrow> nat \<Rightarrow> string \<Rightarrow> (nat \<times> string) option" where
  "redirected s b k =
     (if b < length s then
        (case bb_parent (s ! b) of
           None \<Rightarrow> None
         | Some p \<Rightarrow> (case map_of (bb_remapping (s ! b)) k of
                        None \<Rightarrow> None
                      | Some ext \<Rightarrow> if p < b then Some (p, ext) else None))
      else None)"

text \<open>
  The element's node is built by the factory, and a port of its manifest has the type
  \<open>ty\<close> and is remapped to the blackboard reference \<open>{key}\<close>.
\<close>

definition spec_binds :: "BehaviorTreeFactory \<Rightarrow> XMLElement \<Rightarrow> string \<Rightarrow> type_info \<Rightarrow> bool" where
  "spec_binds f el key ty \<longleftrightarrow>
     (\<exists>ID m p port v. elementID el = Some ID \<and> ID \<in> set (builders f) \<and> map_of (manifests f) ID = Some m
        \<and> (p, port) \<in> set (ports m) \<and> port_info port = Some ty
        \<and> map_of (remappingParameters el) p = Some v \<and> getRemappedKey p v = (True, key))"

text \<open>The number of nodes of kind SubTree, each of which is expanded once.\<close>

definition count_subtrees :: "TreeNode list \<Rightarrow> nat" where
  "count_subtrees ns = length (filter (\<lambda>n. node_type n = SUBTREE) ns)"














section \<open>Example registries and documents\<close>

text \<open>
  For the examples: a hash table that is visited in the order of insertion, one that is
  visited the other way round, and a text that is stood for by the document it is read as.
\<close>

definition in_order :: "PortsRemapping \<Rightarrow> PortsRemapping" where
  "in_order m = m"

definition backwards :: "PortsRemapping \<Rightarrow> PortsRemapping" where
  "backwards m = rev m"

definition as_parsed :: "XMLDocument \<Rightarrow> XMLDocument" where
  "as_parsed doc = doc"

text \<open>A registry with one control node that is not built in, and nothing else.\<close>

definition custom_control_factory :: BehaviorTreeFactory where
  "custom_control_factory =
     \<lparr>builders = [''MyControl''],
      manifests = [(''MyControl'', \<lparr>manifest_type = CONTROL, registration_ID = ''MyControl'', ports = []\<rparr>)],
      builtinNodes = []\<rparr>"

text \<open>A world without files, and a registry with the usual built-in nodes and three actions.\<close>

definition plain_world :: World where
  "plain_world =
     \<lparr>getcwd = \<lparr>is_absolute = True, components = []\<rparr>, files = (\<lambda>p. LoadError),
      ros_package_path = None\<rparr>"

definition demo_factory :: BehaviorTreeFactory where
  "demo_factory =
     \<lparr>builders = [''Sequence'', ''SubTree'', ''Inverter'', ''Ping'', ''PortA'', ''PortB''],
      manifests =
        [(''Sequence'', \<lparr>manifest_type = CONTROL, registration_ID = ''Sequence'', ports = []\<rparr>),
         (''SubTree'', \<lparr>manifest_type = SUBTREE, registration_ID = ''SubTree'', ports = []\<rparr>),
         (''Inverter'', \<lparr>manifest_type = DECORATOR, registration_ID = ''Inverter'', ports = []\<rparr>),
         (''Ping'', \<lparr>manifest_type = ACTION, registration_ID = ''Ping'', ports = []\<rparr>),
         (''PortA'', \<lparr>manifest_type = ACTION, registration_ID = ''PortA'',
            ports = [(''x'', \<lparr>port_type = INPUT, port_info = Some ''int32''\<rparr>)]\<rparr>),
         (''PortB'', \<lparr>manifest_type = ACTION, registration_ID = ''PortB'',
            ports = [(''y'', \<lparr>port_type = INPUT, port_info = Some ''string''\<rparr>)]\<rparr>)],
      builtinNodes = [''Sequence'', ''SubTree'', ''Inverter'']\<rparr>"

text \<open>A document with one unnamed tree and no \<open>main_tree_to_execute\<close>, loaded twice over.\<close>

definition ping_tree :: XMLElement where
  "ping_tree = XMLElement ''BehaviorTree'' [] [XMLElement ''Action'' [(''ID'', ''Ping'')] []]"

definition ping_doc :: XMLDocument where
  "ping_doc = Parsed (Some (XMLElement ''root'' [] [ping_tree]))"

definition ping_state1 :: Pimpl where
  "ping_state1 =
     \<lparr>opened_documents = [ping_doc], tree_roots = [(''BehaviorTree_0'', ping_tree)],
      current_path = \<lparr>is_absolute = True, components = []\<rparr>, suffix_count = 1\<rparr>"

definition ping_state2 :: Pimpl where
  "ping_state2 =
     \<lparr>opened_documents = [ping_doc, ping_doc],
      tree_roots = [(''BehaviorTree_0'', ping_tree), (''BehaviorTree_1'', ping_tree)],
      current_path = \<lparr>is_absolute = True, components = []\<rparr>, suffix_count = 2\<rparr>"

text \<open>Documents whose \<open>main_tree_to_execute\<close> names no tree of their own, or that have two trees and no such attribute.\<close>

definition stray_main_doc :: XMLDocument where
  "stray_main_doc =
     Parsed (Some (XMLElement ''root'' [(''main_tree_to_execute'', ''Elsewhere'')]
       [XMLElement ''BehaviorTree'' [(''ID'', ''Here'')] [XMLElement ''Action'' [(''ID'', ''Ping'')] []]]))"

definition two_trees_doc :: XMLDocument where
  "two_trees_doc =
     Parsed (Some (XMLElement ''root'' []
       [XMLElement ''BehaviorTree'' [(''ID'', ''One'')] [XMLElement ''Action'' [(''ID'', ''Ping'')] []],
        XMLElement ''BehaviorTree'' [(''ID'', ''Two'')] [XMLElement ''Action'' [(''ID'', ''Ping'')] []]]))"





text \<open>
  Files \<open>/a/main.xml\<close>, which includes \<open>sub/inc.xml\<close>, which includes \<open>leaf.xml\<close>; the
  leaf lies beside \<open>inc.xml\<close> in \<open>/a/sub\<close>, and there is no \<open>/a/leaf.xml\<close>.
\<close>

definition leaf_doc :: XMLDocument where
  "leaf_doc =
     Parsed (Some (XMLElement ''root'' [(''main_tree_to_execute'', ''Leaf'')]
       [XMLElement ''BehaviorTree'' [(''ID'', ''Leaf'')] [XMLElement ''Action'' [(''ID'', ''Ping'')] []]]))"

definition inc_doc :: XMLDocument where
  "inc_doc =
     Parsed (Some (XMLElement ''root'' [(''main_tree_to_execute'', ''Inc'')]
       [XMLElement ''include'' [(''path'', ''leaf.xml'')] [],
        XMLElement ''BehaviorTree'' [(''ID'', ''Inc'')] [XMLElement ''Action'' [(''ID'', ''Ping'')] []]]))"

definition main_doc :: XMLDocument where
  "main_doc =
     Parsed (Some (XMLElement ''root'' [(''main_tree_to_execute'', ''Main'')]
       [XMLElement ''include'' [(''path'', ''sub/inc.xml'')] [],
        XMLElement ''BehaviorTree'' [(''ID'', ''Main'')] [XMLElement ''Action'' [(''ID'', ''Ping'')] []]]))"

definition nested_world :: World where
  "nested_world =
     \<lparr>getcwd = \<lparr>is_absolute = True, components = [''home'']\<rparr>,
      files = (\<lambda>p. if p = \<lparr>is_absolute = True, components = [''a'', ''main.xml'']\<rparr> then main_doc
                    else if p = \<lparr>is_absolute = True, components = [''a'', ''sub'', ''inc.xml'']\<rparr> then inc_doc
                    else if p = \<lparr>is_absolute = True, components = [''a'', ''sub'', ''leaf.xml'']\<rparr> then leaf_doc
                    else LoadError),
      ros_package_path = None\<rparr>"

definition inc_loaded_state :: Pimpl where
  "inc_loaded_state =
     \<lparr>opened_documents = [inc_doc, leaf_doc],
      tree_roots =
        [(''Leaf'', XMLElement ''BehaviorTree'' [(''ID'', ''Leaf'')] [XMLElement ''Action'' [(''ID'', ''Ping'')] []]),
         (''Inc'', XMLElement ''BehaviorTree'' [(''ID'', ''Inc'')] [XMLElement ''Action'' [(''ID'', ''Ping'')] []])],
      current_path = \<lparr>is_absolute = True, components = [''a'', ''sub'']\<rparr>, suffix_count = 0\<rparr>"

text \<open>An empty root blackboard.\<close>

definition root_bb :: Blackboard where
  "root_bb = \<lparr>bb_parent = None, bb_types = [], bb_remapping = []\<rparr>"



definition s1_tree :: Tree where
  "s1_tree =
     \<lparr>root_node = Some 0,
      nodes =
        [\<lparr>node_type = CONTROL, registrationName = ''Sequence'', node_name = ''Sequence'',
          node_config = \<lparr>cfg_blackboard = Some 0, input_ports = [], output_ports = []\<rparr>,
          node_children = [1, 2]\<rparr>,
         \<lparr>node_type = ACTION, registrationName = ''Ping'', node_name = ''Ping'',
          node_config = \<lparr>cfg_blackboard = Some 0, input_ports = [], output_ports = []\<rparr>,
          node_children = []\<rparr>,
         \<lparr>node_type = DECORATOR, registrationName = ''Inverter'', node_name = ''Inverter'',
          node_config = \<lparr>cfg_blackboard = Some 0, input_ports = [], output_ports = []\<rparr>,
          node_children = [3]\<rparr>,
         \<lparr>node_type = ACTION, registrationName = ''Ping'', node_name = ''again'',
          node_config = \<lparr>cfg_blackboard = Some 0, input_ports = [], output_ports = []\<rparr>,
          node_children = []\<rparr>],
      blackboard_stack = [root_bb]\<rparr>"

text \<open>What is written for this tree without the compact representation.\<close>

definition s1_written :: XMLDocument where
  "s1_written = Parsed (Some (XMLElement ''root'' []
     [XMLElement ''BehaviorTree'' []
        [XMLElement ''Sequence'' []
           [XMLElement ''Action'' [(''ID'', ''Ping'')] [],
            XMLElement ''Decorator'' [(''ID'', ''Inverter'')]
              [XMLElement ''Action'' [(''ID'', ''Ping''), (''name'', ''again'')] []]]],
      XMLElement ''TreeNodesModel'' []
        [XMLElement ''Action'' [(''ID'', ''Ping'')] [],
         XMLElement ''Action'' [(''ID'', ''PortA''), (''input_ports'', ''x'')] [],
         XMLElement ''Action'' [(''ID'', ''PortB''), (''input_ports'', ''y'')] []]]))"

text \<open>A main tree that expands the tree \<open>Sub\<close> twice, the first time with a remapping.\<close>

definition sub_main_tree :: XMLElement where
  "sub_main_tree =
     XMLElement ''BehaviorTree'' [(''ID'', ''Main'')]
       [XMLElement ''Sequence'' []
          [XMLElement ''SubTree'' [(''ID'', ''Sub'')]
             [XMLElement ''remap'' [(''internal'', ''in''), (''external'', ''outer_k'')] []],
           XMLElement ''SubTree'' [(''ID'', ''Sub'')] []]]"

definition sub_sub_tree :: XMLElement where
  "sub_sub_tree =
     XMLElement ''BehaviorTree'' [(''ID'', ''Sub'')]
       [XMLElement ''Action'' [(''ID'', ''PortA''), (''x'', ''{in}'')] []]"

definition sub_doc :: XMLDocument where
  "sub_doc = Parsed (Some (XMLElement ''root'' [(''main_tree_to_execute'', ''Main'')] [sub_main_tree, sub_sub_tree]))"

definition sub_state :: Pimpl where
  "sub_state =
     \<lparr>opened_documents = [sub_doc], tree_roots = [(''Main'', sub_main_tree), (''Sub'', sub_sub_tree)],
      current_path = \<lparr>is_absolute = True, components = []\<rparr>, suffix_count = 0\<rparr>"

definition sub_result :: Tree where
  "sub_result =
     \<lparr>root_node = Some 0,
      nodes =
        [\<lparr>node_type = CONTROL, registrationName = ''Sequence'', node_name = ''Sequence'',
          node_config = \<lparr>cfg_blackboard = Some 0, input_ports = [], output_ports = []\<rparr>,
          node_children = [1, 3]\<rparr>,
         \<lparr>node_type = SUBTREE, registrationName = ''SubTree'', node_name = ''Sub'',
          node_config = \<lparr>cfg_blackboard = Some 0, input_ports = [], output_ports = []\<rparr>,
          node_children = [2]\<rparr>,
         \<lparr>node_type = ACTION, registrationName = ''PortA'', node_name = ''PortA'',
          node_config = \<lparr>cfg_blackboard = Some 1, input_ports = [(''x'', ''{in}'')], output_ports = []\<rparr>,
          node_children = []\<rparr>,
         \<lparr>node_type = SUBTREE, registrationName = ''SubTree'', node_name = ''Sub'',
          node_config = \<lparr>cfg_blackboard = Some 0, input_ports = [], output_ports = []\<rparr>,
          node_children = [4]\<rparr>,
         \<lparr>node_type = ACTION, registrationName = ''PortA'', node_name = ''PortA'',
          node_config = \<lparr>cfg_blackboard = Some 2, input_ports = [(''x'', ''{in}'')], output_ports = []\<rparr>,
          node_children = []\<rparr>],
      blackboard_stack =
        [\<lparr>bb_parent = None, bb_types = [(''outer_k'', ''int32'')], bb_remapping = []\<rparr>,
         \<lparr>bb_parent = Some 0, bb_types = [], bb_remapping = [(''in'', ''outer_k'')]\<rparr>,
         \<lparr>bb_parent = Some 1, bb_types = [(''in'', ''int32'')], bb_remapping = []\<rparr>]\<rparr>"

definition bare_tree :: Tree where
  "bare_tree = \<lparr>root_node = None, nodes = [], blackboard_stack = [root_bb]\<rparr>"

definition sub_main_root :: XMLElement where
  "sub_main_root =
     XMLElement ''Sequence'' []
       [XMLElement ''SubTree'' [(''ID'', ''Sub'')]
          [XMLElement ''remap'' [(''internal'', ''in''), (''external'', ''outer_k'')] []],
        XMLElement ''SubTree'' [(''ID'', ''Sub'')] []]"

text \<open>
  Two actions that bind ports of type \<open>int32\<close> and \<open>string\<close> to the key \<open>shared\<close>, with an
  action between them, and the states in which the three are made.
\<close>

definition s5_doc :: XMLDocument where
  "s5_doc =
     Parsed (Some (XMLElement ''root'' []
       [XMLElement ''BehaviorTree'' []
          [XMLElement ''Sequence'' []
             [XMLElement ''Action'' [(''ID'', ''PortA''), (''x'', ''{shared}'')] [],
              XMLElement ''Action'' [(''ID'', ''Ping'')] [],
              XMLElement ''Action'' [(''ID'', ''PortB''), (''y'', ''{shared}'')] []]]]))"

definition s5_state :: Pimpl where
  "s5_state =
     \<lparr>opened_documents = [s5_doc],
      tree_roots = [(''BehaviorTree_0'', XMLElement ''BehaviorTree'' []
          [XMLElement ''Sequence'' []
             [XMLElement ''Action'' [(''ID'', ''PortA''), (''x'', ''{shared}'')] [],
              XMLElement ''Action'' [(''ID'', ''Ping'')] [],
              XMLElement ''Action'' [(''ID'', ''PortB''), (''y'', ''{shared}'')] []]])],
      current_path = \<lparr>is_absolute = True, components = []\<rparr>, suffix_count = 1\<rparr>"

definition s5_first :: Tree where
  "s5_first =
     \<lparr>root_node = None,
      nodes = [\<lparr>node_type = CONTROL, registrationName = ''Sequence'', node_name = ''Sequence'',
          node_config = \<lparr>cfg_blackboard = Some 0, input_ports = [], output_ports = []\<rparr>,
          node_children = []\<rparr>],
      blackboard_stack = [root_bb]\<rparr>"

definition s5_second :: Tree where
  "s5_second =
     \<lparr>root_node = None,
      nodes = [\<lparr>node_type = CONTROL, registrationName = ''Sequence'', node_name = ''Sequence'',
          node_config = \<lparr>cfg_blackboard = Some 0, input_ports = [], output_ports = []\<rparr>,
          node_children = [1]\<rparr>],
      blackboard_stack = [\<lparr>bb_parent = None, bb_types = [(''shared'', ''int32'')], bb_remapping = []\<rparr>]\<rparr>"

definition s5_third :: Tree where
  "s5_third =
     s5_second\<lparr>nodes := nodes s5_second @
       [\<lparr>node_type = ACTION, registrationName = ''PortA'', node_name = ''PortA'',
         node_config = \<lparr>cfg_blackboard = Some 0, input_ports = [(''x'', ''{shared}'')], output_ports = []\<rparr>,
         node_children = []\<rparr>]\<rparr>"

definition s5_fourth :: Tree where
  "s5_fourth =
     \<lparr>root_node = None,
      nodes =
        [\<lparr>node_type = CONTROL, registrationName = ''Sequence'', node_name = ''Sequence'',
          node_config = \<lparr>cfg_blackboard = Some 0, input_ports = [], output_ports = []\<rparr>,
          node_children = [1, 2]\<rparr>,
         \<lparr>node_type = ACTION, registrationName = ''PortA'', node_name = ''PortA'',
          node_config = \<lparr>cfg_blackboard = Some 0, input_ports = [(''x'', ''{shared}'')], output_ports = []\<rparr>,
          node_children = []\<rparr>,
         \<lparr>node_type = ACTION, registrationName = ''Ping'', node_name = ''Ping'',
          node_config = \<lparr>cfg_blackboard = Some 0, input_ports = [], output_ports = []\<rparr>,
          node_children = []\<rparr>],
      blackboard_stack = [\<lparr>bb_parent = None, bb_types = [(''shared'', ''int32'')], bb_remapping = []\<rparr>]\<rparr>"

definition s5_port_a :: XMLElement where
  "s5_port_a = XMLElement ''Action'' [(''ID'', ''PortA''), (''x'', ''{shared}'')] []"

definition s5_port_b :: XMLElement where
  "s5_port_b = XMLElement ''Action'' [(''ID'', ''PortB''), (''y'', ''{shared}'')] []"





text \<open>
  The tree of scenario S5 with a blackboard key of 900 letters: the message of the mismatch
  takes 1042 bytes and the terminating zero.
\<close>

definition long_key :: string where
  "long_key = replicate 900 (CHR ''k'')"

definition long_key_tree :: XMLElement where
  "long_key_tree =
     XMLElement ''BehaviorTree'' []
       [XMLElement ''Sequence'' []
          [XMLElement ''Action'' [(''ID'', ''PortA''), (''x'', ''{'' @ long_key @ ''}'')] [],
           XMLElement ''Action'' [(''ID'', ''PortB''), (''y'', ''{'' @ long_key @ ''}'')] []]]"

definition long_key_doc :: XMLDocument where
  "long_key_doc = Parsed (Some (XMLElement ''root'' [] [long_key_tree]))"

definition long_key_state :: Pimpl where
  "long_key_state =
     \<lparr>opened_documents = [long_key_doc], tree_roots = [(''BehaviorTree_0'', long_key_tree)],
      current_path = \<lparr>is_absolute = True, components = []\<rparr>, suffix_count = 1\<rparr>"










section \<open>The writer's model section\<close>

lemma fold_appendPort:
  "fold appendPort ps (a, b, c) = (a @ acc_ports INPUT ps, b @ acc_ports OUTPUT ps, c @ acc_ports INOUT ps)"
  by (induction ps arbitrary: a b c) (auto simp: appendPort_def acc_ports_def split: PortType.splits)

lemma butlast_concat_join:
  "ns \<noteq> [] \<Longrightarrow> butlast (concat (map (\<lambda>n. n @ '';'') ns)) = spec_join ns"
  by (induction ns rule: spec_join.induct) (auto simp: butlast_append)

lemma acc_ports_names:
  "acc_ports dir ps = concat (map (\<lambda>n. n @ '';'') (map fst (filter (\<lambda>p. port_type (snd p) = dir) ps)))"
  by (simp add: acc_ports_def comp_def)

lemma acc_ports_empty:
  "acc_ports dir ps = [] \<longleftrightarrow> filter (\<lambda>p. port_type (snd p) = dir) ps = []"
  by (induction ps) (auto simp: acc_ports_def)

lemma butlast_acc_ports:
  assumes "filter (\<lambda>p. port_type (snd p) = dir) ps \<noteq> []"
  shows "butlast (acc_ports dir ps) = spec_join (map fst (filter (\<lambda>p. port_type (snd p) = dir) ps))"
proof -
  have "map fst (filter (\<lambda>p. port_type (snd p) = dir) ps) \<noteq> []"
    using assms by simp
  from butlast_concat_join [OF this] show ?thesis
    by (simp only: acc_ports_names)
qed

lemma modelElement_attrs:
  "el_attrs (modelElement model) =
     (''ID'', registration_ID model) # spec_group ''input_ports'' INPUT model
       @ spec_group ''output_ports'' OUTPUT model @ spec_group ''inout_ports'' INOUT model"
  unfolding modelElement_def spec_group_def
  by (simp add: fold_appendPort SetAttribute_def Let_def acc_ports_empty butlast_acc_ports)

lemma modelElement_name: "el_name (modelElement model) = toStr (manifest_type model)"
  unfolding modelElement_def
  by (simp add: fold_appendPort SetAttribute_def Let_def)

lemma modelElement_children: "el_children (modelElement model) = []"
  unfolding modelElement_def
  by (simp add: fold_appendPort SetAttribute_def Let_def)

lemma fold_addModel:
  "fold (addModel factory) ms els =
     els @ map (\<lambda>m. modelElement (snd m))
            (filter (\<lambda>m. fst m \<notin> set (builtinNodes factory) \<and> manifest_type (snd m) \<noteq> CONTROL) ms)"
  by (induction ms arbitrary: els) (auto simp: addModel_def)

lemma treeNodesModel_section: "treeNodesModel factory = spec_section factory"
  by (rule XMLElement.expand)
     (simp add: treeNodesModel_def spec_section_def spec_listed_def spec_model_def fold_addModel
        modelElement_attrs modelElement_name modelElement_children XMLElement.expand)

lemma writeXML_Inr:
  assumes "writeXML Print visit fuel factory ns root compact_representation = Inr text"
  obtains trees where
    "text = Print (Parsed (Some (XMLElement ''root'' [] (trees @ [treeNodesModel factory]))))"
    "root = None \<longrightarrow> trees = []"
    "\<forall>r. root = Some r \<longrightarrow>
       (\<exists>el. recursiveVisitor visit fuel factory compact_representation ns r = Inr el
             \<and> trees = [XMLElement ''BehaviorTree'' [] [el]])"
  using assms
  by (auto simp: writeXML_def split: option.splits sum.splits)

text \<open>
  C8, as the code has it.  Whenever \<^verbatim>\<open>writeXML\<close> returns, the document it has printed
  has the root element \<open>root\<close>, whose last child is the only \<open>TreeNodesModel\<close> element; the
  children before it are named \<open>BehaviorTree\<close>.  The section holds, in the registry's order,
  one element for every manifest that is neither built in nor of kind Control.  Each is
  named after the manifest's kind, has no children, and its attributes are the \<open>ID\<close>
  followed by \<open>input_ports\<close>, \<open>output_ports\<close> and \<open>inout_ports\<close>: the port names of
  that direction joined by semicolons with no separator at the end, an attribute being
  left out when the manifest has no port of its direction.
\<close>

theorem writeXML_model_section:
  assumes "writeXML Print visit fuel factory ns root compact_representation = Inr text"
  shows "\<exists>trees. text = Print (Parsed (Some (XMLElement ''root'' []
                     (trees @ [XMLElement ''TreeNodesModel'' [] (map spec_model (spec_listed factory))]))))
           \<and> list_all (\<lambda>t. el_name t = ''BehaviorTree'') trees"
proof -
  from assms obtain trees where
    printed: "text = Print (Parsed (Some (XMLElement ''root'' [] (trees @ [treeNodesModel factory]))))"
    and none: "root = None \<longrightarrow> trees = []"
    and some: "\<forall>r. root = Some r \<longrightarrow>
       (\<exists>el. recursiveVisitor visit fuel factory compact_representation ns r = Inr el
             \<and> trees = [XMLElement ''BehaviorTree'' [] [el]])"
    by (rule writeXML_Inr)
  have "list_all (\<lambda>t. el_name t = ''BehaviorTree'') trees"
    using none some by (cases root) auto
  with printed show ?thesis
    by (auto simp: treeNodesModel_section spec_section_def)
qed

theorem writeXML_model_section_witness:
  "writeXML as_parsed in_order 3 demo_factory (nodes s1_tree) (root_node s1_tree) False = Inr s1_written
   \<and> (\<exists>trees. s1_written = as_parsed (Parsed (Some (XMLElement ''root'' []
                     (trees @ [XMLElement ''TreeNodesModel'' [] (map spec_model (spec_listed demo_factory))]))))
           \<and> list_all (\<lambda>t. el_name t = ''BehaviorTree'') trees)"
proof -
  have w: "writeXML as_parsed in_order 3 demo_factory (nodes s1_tree) (root_node s1_tree) False = Inr s1_written"
    by code_simp
  from w writeXML_model_section [OF w] show ?thesis by blast
qed

text \<open>
  C8 as stated fails: a control node that is not built in is a manifest of the registry,
  yet the section that is written has no element for it.
\<close>

theorem treeNodesModel_skips_custom_control:
  "filter (\<lambda>m. fst m \<notin> set (builtinNodes custom_control_factory)) (manifests custom_control_factory)
     = [(''MyControl'', \<lparr>manifest_type = CONTROL, registration_ID = ''MyControl'', ports = []\<rparr>)]
   \<and> el_children (treeNodesModel custom_control_factory) = []
   \<and> writeXML as_parsed in_order 0 custom_control_factory [] None False
       = Inr (Parsed (Some (XMLElement ''root'' [] [XMLElement ''TreeNodesModel'' [] []])))"
  by (simp add: custom_control_factory_def treeNodesModel_def addModel_def writeXML_def as_parsed_def)

section \<open>Writing without a tree\<close>

text \<open>
  C10.  With a null root node \<^verbatim>\<open>writeXML\<close> returns, whatever the other arguments are.
  What it has printed is the document whose root element \<open>root\<close> has one child, the
  \<open>TreeNodesModel\<close> element: no \<open>BehaviorTree\<close> element, and one element for every
  manifest of the registry that is neither built in nor of kind Control, with the \<open>ID\<close>
  and the port names of the manifest.
\<close>

theorem writeXML_null_root:
  "writeXML Print visit fuel factory ns None compact_representation =
     Inr (Print (Parsed (Some (XMLElement ''root'' []
            [XMLElement ''TreeNodesModel'' [] (map spec_model (spec_listed factory))]))))"
  by (simp add: writeXML_def treeNodesModel_section spec_section_def)

section \<open>Loops that may throw\<close>

lemma forEach_invariant:
  assumes "forEach body xs s = Inr s'" and "P s"
    and "\<And>x a b. x \<in> set xs \<Longrightarrow> body x a = Inr b \<Longrightarrow> P a \<Longrightarrow> P b"
  shows "P s'"
  using assms
proof (induction xs arbitrary: s)
  case Nil
  then show ?case by simp
next
  case (Cons x xs)
  from Cons.prems(1) obtain s1 where s1: "body x s = Inr s1" and rest: "forEach body xs s1 = Inr s'"
    by (auto split: sum.splits)
  have s1P: "P s1" using Cons.prems(3) [OF _ s1 Cons.prems(2)] by simp
  show ?case
  proof (rule Cons.IH [OF rest s1P])
    fix y a b
    assume "y \<in> set xs" "body y a = Inr b" "P a"
    then show "P b" using Cons.prems(3) [of y a b] by simp
  qed
qed

section \<open>The main tree check of the validator\<close>

lemma verifyTree_result:
  "verifyTree f roots bt acc = Inr acc' \<Longrightarrow>
     acc' = (fst acc @ List.map_filter (\<lambda>bt. Attribute bt ''ID'') [bt], snd acc + 1)"
  by (auto simp: verifyTree_def Let_def List.map_filter_simps split: sum.splits if_splits option.splits)

lemma forEach_verifyTree:
  "forEach (verifyTree f roots) bts acc = Inr acc' \<Longrightarrow>
     acc' = (fst acc @ List.map_filter (\<lambda>bt. Attribute bt ''ID'') bts, snd acc + length bts)"
proof (induction bts arbitrary: acc)
  case Nil
  then show ?case by (simp add: List.map_filter_simps)
next
  case (Cons bt bts)
  from Cons.prems obtain acc1 where step: "verifyTree f roots bt acc = Inr acc1"
    and rest: "forEach (verifyTree f roots) bts acc1 = Inr acc'"
    by (auto split: sum.splits)
  from verifyTree_result [OF step] Cons.IH [OF rest] show ?case
    by (auto simp: List.map_filter_simps split: option.splits)
qed

lemma verifyModel_error: "verifyModel xml_root = Inl e \<Longrightarrow> \<exists>s. e = SchemaError s"
  by (auto simp: verifyModel_def split: list.splits if_splits)

lemma verifyNode_error:
  "verifyNode f roots node = Inl e \<Longrightarrow> (\<exists>s. e = SchemaError s) \<or> e = BufferOverrun"
  by (auto simp: verifyNode_def ThrowError_def Let_def split: if_splits)

lemma verify_recursiveStep_error:
  "verify_recursiveStep f roots node = Inl e \<Longrightarrow> (\<exists>s. e = SchemaError s) \<or> e = BufferOverrun"
  "verify_children f roots cs = Inl e \<Longrightarrow> (\<exists>s. e = SchemaError s) \<or> e = BufferOverrun"
proof (induction f roots node and f roots cs rule: verify_recursiveStep_verify_children.induct)
  case (1 factory tree_roots name attrs cs)
  then show ?case
    by (auto split: sum.splits if_splits dest: verifyNode_error)
next
  case (2 factory tree_roots)
  then show ?case by simp
next
  case (3 factory tree_roots c cs)
  then show ?case
    by (auto split: sum.splits)
qed

lemma verifyTree_error:
  "verifyTree f roots bt acc = Inl e \<Longrightarrow> (\<exists>s. e = SchemaError s) \<or> e = BufferOverrun"
  by (auto simp: verifyTree_def Let_def split: if_splits sum.splits dest: verify_recursiveStep_error)

lemma forEach_verifyTree_error:
  "forEach (verifyTree f roots) bts acc = Inl e \<Longrightarrow> (\<exists>s. e = SchemaError s) \<or> e = BufferOverrun"
  by (induction bts arbitrary: acc) (auto split: sum.splits dest: verifyTree_error)

lemma verifyXML_main_tree:
  assumes "RootElement doc = Some xml_root"
  shows "(verifyXML f roots doc = Inr () \<longrightarrow>
           (case Attribute xml_root ''main_tree_to_execute'' of
              Some m \<Rightarrow> m \<in> set (spec_own_tree_ids xml_root)
            | None \<Rightarrow> length (ChildElements ''BehaviorTree'' xml_root) = 1))
    \<and> (verifyXML f roots doc = Inl MainTreeNotFound \<longrightarrow>
           (\<exists>m. Attribute xml_root ''main_tree_to_execute'' = Some m \<and> m \<notin> set (spec_own_tree_ids xml_root)))
    \<and> (verifyXML f roots doc = Inl NotSingleTree \<longrightarrow>
           Attribute xml_root ''main_tree_to_execute'' = None \<and> length (ChildElements ''BehaviorTree'' xml_root) \<noteq> 1)"
proof (cases "forEach (verifyTree f roots) (ChildElements ''BehaviorTree'' xml_root) ([], 0)")
  case (Inl e)
  with assms show ?thesis
    by (auto simp: verifyXML_def split: sum.splits option.splits if_splits
          dest!: verifyModel_error forEach_verifyTree_error)
next
  case (Inr acc)
  from forEach_verifyTree [OF Inr]
  have acc: "acc = (spec_own_tree_ids xml_root, length (ChildElements ''BehaviorTree'' xml_root))"
    by (simp add: spec_own_tree_ids_def)
  show ?thesis
    using assms Inr acc
    by (auto simp: verifyXML_def split: sum.splits option.splits if_splits dest!: verifyModel_error)
qed

text \<open>
  C6, as the code has it.  The check is made on every document that is loaded, and it looks
  at that document alone.  Validation of a document fails whenever its root carries
  \<open>main_tree_to_execute\<close> with a value that is not the \<open>ID\<close> attribute of one of the
  document's own \<open>BehaviorTree\<close> elements, and whenever the attribute is absent and the
  document does not hold exactly one \<open>BehaviorTree\<close>.  In all other cases the check
  passes: neither of its two errors is raised.
\<close>

theorem verifyXML_main_tree_selection:
  assumes "RootElement doc = Some xml_root"
  shows "(Attribute xml_root ''main_tree_to_execute'' = Some m \<and> m \<notin> set (spec_own_tree_ids xml_root)
            \<longrightarrow> verifyXML factory roots doc \<noteq> Inr ())
       \<and> (Attribute xml_root ''main_tree_to_execute'' = None
            \<and> length (ChildElements ''BehaviorTree'' xml_root) \<noteq> 1
            \<longrightarrow> verifyXML factory roots doc \<noteq> Inr ())
       \<and> ((case Attribute xml_root ''main_tree_to_execute'' of
              Some m' \<Rightarrow> m' \<in> set (spec_own_tree_ids xml_root)
            | None \<Rightarrow> length (ChildElements ''BehaviorTree'' xml_root) = 1)
            \<longrightarrow> verifyXML factory roots doc \<noteq> Inl MainTreeNotFound
                \<and> verifyXML factory roots doc \<noteq> Inl NotSingleTree)"
  using verifyXML_main_tree [OF assms, of factory roots]
  by (auto split: option.splits)

theorem verifyXML_main_tree_selection_witness:
  "RootElement stray_main_doc
     = Some (XMLElement ''root'' [(''main_tree_to_execute'', ''Elsewhere'')]
         [XMLElement ''BehaviorTree'' [(''ID'', ''Here'')] [XMLElement ''Action'' [(''ID'', ''Ping'')] []]])
   \<and> verifyXML demo_factory [] stray_main_doc \<noteq> Inr ()
   \<and> RootElement two_trees_doc
     = Some (XMLElement ''root'' []
         [XMLElement ''BehaviorTree'' [(''ID'', ''One'')] [XMLElement ''Action'' [(''ID'', ''Ping'')] []],
          XMLElement ''BehaviorTree'' [(''ID'', ''Two'')] [XMLElement ''Action'' [(''ID'', ''Ping'')] []]])
   \<and> verifyXML demo_factory [] two_trees_doc \<noteq> Inr ()
   \<and> RootElement ping_doc = Some (XMLElement ''root'' [] [ping_tree])
   \<and> verifyXML demo_factory [] ping_doc \<noteq> Inl MainTreeNotFound
   \<and> verifyXML demo_factory [] ping_doc \<noteq> Inl NotSingleTree"
  using
    verifyXML_main_tree_selection [of stray_main_doc
      "XMLElement ''root'' [(''main_tree_to_execute'', ''Elsewhere'')]
         [XMLElement ''BehaviorTree'' [(''ID'', ''Here'')] [XMLElement ''Action'' [(''ID'', ''Ping'')] []]]"
      "''Elsewhere''" demo_factory "[]"]
    verifyXML_main_tree_selection [of two_trees_doc
      "XMLElement ''root'' []
         [XMLElement ''BehaviorTree'' [(''ID'', ''One'')] [XMLElement ''Action'' [(''ID'', ''Ping'')] []],
          XMLElement ''BehaviorTree'' [(''ID'', ''Two'')] [XMLElement ''Action'' [(''ID'', ''Ping'')] []]]"
      undefined demo_factory "[]"]
    verifyXML_main_tree_selection [of ping_doc "XMLElement ''root'' [] [ping_tree]" undefined demo_factory "[]"]
  by (simp add: stray_main_doc_def two_trees_doc_def ping_doc_def ping_tree_def Attribute_def
        ChildElements_def spec_own_tree_ids_def List.map_filter_simps)

text \<open>
  C6 as stated fails: two documents, each with one tree and without
  \<open>main_tree_to_execute\<close>, are both accepted, although two trees then stand in
  \<open>tree_roots\<close>.
\<close>

theorem two_documents_one_tree_each_accepted:
  "loadFromText 1 plain_world demo_factory ping_doc (Pimpl_init plain_world) = Inr ping_state1
   \<and> loadFromText 1 plain_world demo_factory ping_doc ping_state1 = Inr ping_state2
   \<and> map fst (tree_roots ping_state2) = [''BehaviorTree_0'', ''BehaviorTree_1'']
   \<and> Attribute (XMLElement ''root'' [] [ping_tree]) ''main_tree_to_execute'' = None"
  by code_simp

section \<open>Trees of the same name\<close>

lemma map_of_snoc:
  "map_of (m @ [(k, v)]) k' = (case map_of m k' of Some x \<Rightarrow> Some x | None \<Rightarrow> if k' = k then Some v else None)"
  by (induction m) auto

lemma umap_insert_keeps:
  assumes "map_of m k = Some v"
  shows "map_of (umap_insert k' v' m) k = Some v"
proof -
  have "map_of (m @ [(k', v')]) k = Some v"
    unfolding map_of_snoc assms by simp
  with assms show ?thesis
    by (cases "k' \<in> fst ` set m") (simp_all only: umap_insert_def if_True if_False)
qed

lemma umap_insert_new:
  assumes "map_of m k = None"
  shows "map_of (umap_insert k v m) k = Some v"
proof -
  have "k \<notin> fst ` set m"
    using assms by (simp add: map_of_eq_None_iff)
  moreover have "map_of (m @ [(k, v)]) k = Some v"
    unfolding map_of_snoc assms by simp
  ultimately show ?thesis
    by (simp only: umap_insert_def if_False)
qed

lemma registerTree_keeps:
  "map_of (tree_roots st) k = Some v \<Longrightarrow> map_of (tree_roots (registerTree bt st)) k = Some v"
  by (auto simp: registerTree_def umap_insert_keeps split: option.splits)

lemma registerTrees_keeps:
  "map_of (tree_roots st) k = Some v \<Longrightarrow> map_of (tree_roots (registerTrees bts st)) k = Some v"
  unfolding registerTrees_def
  by (induction bts arbitrary: st) (auto simp: registerTree_keeps)

lemma registerTree_enters:
  "map_of (tree_roots (registerTree bt st)) (spec_tree_name bt st) =
     Some (case map_of (tree_roots st) (spec_tree_name bt st) of Some old \<Rightarrow> old | None \<Rightarrow> bt)"
  by (auto simp: registerTree_def spec_tree_name_def umap_insert_keeps umap_insert_new split: option.splits)

lemma loadDocImpl_Suc_Inr:
  assumes "loadDocImpl (Suc fuel) w f doc st = Inr st'"
  obtains xml_root st1 where "doc = Parsed (Some xml_root)"
    and "forEach
           (\<lambda>include_node s.
              case includePath w (current_path s) include_node of
                Inl e \<Rightarrow> Inl e
              | Inr file_path \<Rightarrow>
                  loadDocImpl fuel w f (LoadFile w file_path)
                    (s\<lparr>opened_documents := opened_documents s @ [LoadFile w file_path]\<rparr>))
           (ChildElements ''include'' xml_root) st = Inr st1"
    and "st' = registerTrees (ChildElements ''BehaviorTree'' xml_root) st1"
    and "verifyXML f (tree_roots st') doc = Inr ()"
  using assms
  by (auto split: XMLDocument.splits option.splits sum.splits simp: Let_def)

lemma loadDocImpl_keeps:
  "loadDocImpl fuel w f doc st = Inr st' \<Longrightarrow> map_of (tree_roots st) k = Some v
     \<Longrightarrow> map_of (tree_roots st') k = Some v"
proof (induction fuel arbitrary: doc st st')
  case 0
  then show ?case by simp
next
  case (Suc fuel)
  from Suc.prems(1) obtain xml_root st1 where
    inc: "forEach
            (\<lambda>include_node s.
               case includePath w (current_path s) include_node of
                 Inl e \<Rightarrow> Inl e
               | Inr file_path \<Rightarrow>
                   loadDocImpl fuel w f (LoadFile w file_path)
                     (s\<lparr>opened_documents := opened_documents s @ [LoadFile w file_path]\<rparr>))
            (ChildElements ''include'' xml_root) st = Inr st1"
    and st': "st' = registerTrees (ChildElements ''BehaviorTree'' xml_root) st1"
    by (rule loadDocImpl_Suc_Inr)
  have "map_of (tree_roots st1) k = Some v"
    by (rule forEach_invariant [OF inc, where P = "\<lambda>s. map_of (tree_roots s) k = Some v"])
       (auto split: sum.splits intro: Suc.prems(2) dest!: Suc.IH)
  then show ?case using st' by (simp add: registerTrees_keeps)
qed

section \<open>The directory against which includes are resolved\<close>

lemma registerTrees_current_path: "current_path (registerTrees bts s) = current_path s"
  unfolding registerTrees_def
  by (induction bts arbitrary: s) (auto simp: registerTree_def split: option.splits)

lemma loadDocImpl_current_path:
  "loadDocImpl fuel w f doc st = Inr st' \<Longrightarrow> current_path st' = current_path st"
proof (induction fuel arbitrary: doc st st')
  case 0
  then show ?case by simp
next
  case (Suc fuel)
  from Suc.prems obtain xml_root st1 where
    inc: "forEach
            (\<lambda>include_node s.
               case includePath w (current_path s) include_node of
                 Inl e \<Rightarrow> Inl e
               | Inr file_path \<Rightarrow>
                   loadDocImpl fuel w f (LoadFile w file_path)
                     (s\<lparr>opened_documents := opened_documents s @ [LoadFile w file_path]\<rparr>))
            (ChildElements ''include'' xml_root) st = Inr st1"
    and st': "st' = registerTrees (ChildElements ''BehaviorTree'' xml_root) st1"
    by (rule loadDocImpl_Suc_Inr)
  have "current_path st1 = current_path st"
    by (rule forEach_invariant [OF inc, where P = "\<lambda>s. current_path s = current_path st"])
       (auto split: sum.splits dest!: Suc.IH)
  then show ?case using st' by (simp add: registerTrees_current_path)
qed

text \<open>
  C7 fails on an include inside an included file.  \<open>/a/sub/inc.xml\<close> includes \<open>leaf.xml\<close>,
  which lies beside it.  Loaded by \<^verbatim>\<open>loadFromFile\<close>, \<open>inc.xml\<close> is accepted and
  \<open>current_path\<close> is \<open>/a/sub\<close>.  Included from \<open>/a/main.xml\<close>, the same file is loaded
  without \<open>current_path\<close> being touched: the leaf is looked for in \<open>/a\<close>, and the load
  fails.
\<close>

theorem nested_include_resolved_against_first_file:
  "loadFromFile 3 nested_world demo_factory ''/a/sub/inc.xml'' (Pimpl_init nested_world) = Inr inc_loaded_state
   \<and> current_path inc_loaded_state = \<lparr>is_absolute = True, components = [''a'', ''sub'']\<rparr>
   \<and> loadFromFile 3 nested_world demo_factory ''/a/main.xml'' (Pimpl_init nested_world) = Inl ParseError
   \<and> includePath nested_world
        (make_absolute nested_world (parent_path (path_of_string ''/a/main.xml'')))
        (XMLElement ''include'' [(''path'', ''leaf.xml'')] [])
       = Inr \<lparr>is_absolute = True, components = [''a'', ''leaf.xml'']\<rparr>"
  by code_simp

section \<open>The shape of the node list\<close>

lemma attachChild_Inr:
  assumes "attachChild parent (length ns) ns = Inr ns'"
  shows "length ns' = length ns"
    and "\<And>i. i < length ns \<Longrightarrow> Some i \<noteq> parent \<Longrightarrow> ns' ! i = ns ! i"
    and "\<And>p. parent = Some p \<Longrightarrow> p < length ns
          \<and> same_node (ns' ! p) (ns ! p)
          \<and> (node_children (ns' ! p) = node_children (ns ! p)
               \<or> node_children (ns' ! p) = node_children (ns ! p) @ [length ns])"
  using assms
  by (auto simp: attachChild_def addChild_def setChild_def same_node_def split: option.splits if_splits)







lemma createNodeFromXML_Inr:
  assumes "createNodeFromXML visit f roots el bb parent t = Inr (node, t1)"
  obtains ID instance_name stack ns where
    "elementID el = Some ID" "elementInstanceName el ID = Some instance_name"
    "makeNode visit f roots ID instance_name (remappingParameters el) bb (blackboard_stack t) = Inr (node, stack)"
    "attachChild parent (length (nodes t)) (nodes t) = Inr ns"
    "t1 = t\<lparr>blackboard_stack := stack, nodes := ns\<rparr>"
  using assms
  by (auto simp: createNodeFromXML_def split: option.splits sum.splits)

lemma create_recursiveStep_Suc_Inr:
  assumes "create_recursiveStep visit (Suc n) f roots bb parent el t = Inr t'"
  obtains node t1 where "createNodeFromXML visit f roots el bb parent t = Inr (node, t1)"
    and "node_type node = SUBTREE \<longrightarrow>
           (\<exists>new_bb t3 root_el.
             pushSubtreeBlackboard el (t1\<lparr>nodes := nodes t1 @ [node]\<rparr>) = Inr (new_bb, t3)
           \<and> treeRootElement roots (node_name node) = Inr root_el
           \<and> create_recursiveStep visit n f roots new_bb (Some (length (nodes t1))) root_el t3 = Inr t')"
    and "node_type node \<noteq> SUBTREE \<longrightarrow>
           forEach (\<lambda>c s. create_recursiveStep visit n f roots bb (Some (length (nodes t1))) c s)
             (el_children el) (t1\<lparr>nodes := nodes t1 @ [node]\<rparr>) = Inr t'"
  using assms
  by (auto simp: Let_def split: sum.splits if_splits prod.splits)


lemma pushSubtreeBlackboard_nodes:
  "pushSubtreeBlackboard el t = Inr (b, t') \<Longrightarrow> nodes t' = nodes t \<and> root_node t' = root_node t"
  by (auto simp: pushSubtreeBlackboard_def Let_def split: if_splits sum.splits)


section \<open>Blackboards while nodes are made\<close>

lemma bb_extends_refl: "bb_extends s s"
  by (auto simp: bb_extends_def)

lemma bb_extends_trans:
  assumes "bb_extends a b" and "bb_extends b c"
  shows "bb_extends a c"
  unfolding bb_extends_def
proof (intro conjI allI impI)
  show "length a \<le> length c" using assms by (simp add: bb_extends_def)
next
  fix i assume i: "i < length a"
  then have ib: "i < length b" using assms(1) by (simp add: bb_extends_def)
  from assms(1) i have ab: "bb_parent (b ! i) = bb_parent (a ! i)" "bb_remapping (b ! i) = bb_remapping (a ! i)"
    by (simp_all add: bb_extends_def)
  from assms(2) ib have bc: "bb_parent (c ! i) = bb_parent (b ! i)" "bb_remapping (c ! i) = bb_remapping (b ! i)"
    by (simp_all add: bb_extends_def)
  show "bb_parent (c ! i) = bb_parent (a ! i)" using ab bc by simp
  show "bb_remapping (c ! i) = bb_remapping (a ! i)" using ab bc by simp
  fix k ty assume "map_of (bb_types (a ! i)) k = Some ty"
  with assms(1) i have "map_of (bb_types (b ! i)) k = Some ty"
    by (simp add: bb_extends_def)
  with assms(2) ib show "map_of (bb_types (c ! i)) k = Some ty"
    by (simp add: bb_extends_def)
next
  fix i assume i: "length a \<le> i \<and> i < length c"
  show "bb_parent (c ! i) = Some (i - 1)"
  proof (cases "i < length b")
    case True
    with assms(1) i have "bb_parent (b ! i) = Some (i - 1)" by (simp add: bb_extends_def)
    moreover from assms(2) True have "bb_parent (c ! i) = bb_parent (b ! i)" by (simp add: bb_extends_def)
    ultimately show ?thesis by simp
  next
    case False
    with assms(2) i show ?thesis by (simp add: bb_extends_def)
  qed
qed

lemma resolveKey_unfold:
  "resolveKey s b k = (case redirected s b k of None \<Rightarrow> (b, k) | Some (p, ext) \<Rightarrow> resolveKey s p ext)"
  by (subst resolveKey.simps) (simp add: redirected_def split: option.splits)

lemma redirected_less: "redirected s b k = Some (p, ext) \<Longrightarrow> p < b"
  by (auto simp: redirected_def split: if_splits option.splits)

lemma resolveKey_le: "fst (resolveKey s b k) \<le> b"
proof (induction b arbitrary: k rule: less_induct)
  case (less b)
  show ?case
  proof (cases "redirected s b k")
    case None
    then show ?thesis by (subst resolveKey_unfold) simp
  next
    case (Some slot)
    obtain p ext where slot: "slot = (p, ext)" by (cases slot)
    from redirected_less Some slot have "p < b" by simp
    from less.IH [OF this, of ext] this show ?thesis
      by (subst resolveKey_unfold) (simp add: Some slot)
  qed
qed

lemma bb_extends_redirected:
  assumes "bb_extends s s'" and "b < length s"
  shows "redirected s' b k = redirected s b k"
  using assms by (auto simp: bb_extends_def redirected_def split: option.splits)

lemma bb_extends_resolveKey:
  assumes "bb_extends s s'"
  shows "b < length s \<Longrightarrow> resolveKey s' b k = resolveKey s b k"
proof (induction b arbitrary: k rule: less_induct)
  case (less b)
  note red = bb_extends_redirected [OF assms less.prems, of k]
  show ?case
  proof (cases "redirected s b k")
    case None
    with red show ?thesis
      by (simp add: resolveKey_unfold [of s' b k] resolveKey_unfold [of s b k])
  next
    case (Some slot)
    obtain p ext where slot: "slot = (p, ext)" by (cases slot)
    from redirected_less Some slot have pb: "p < b" by simp
    with less.prems have "p < length s" by simp
    from less.IH [OF pb this, of ext] red Some slot show ?thesis
      by (simp add: resolveKey_unfold [of s' b k] resolveKey_unfold [of s b k])
  qed
qed

lemma bb_extends_portType:
  assumes "bb_extends s s'" and "b < length s" and "portType s b k = Some ty"
  shows "portType s' b k = Some ty"
proof -
  have r: "resolveKey s' b k = resolveKey s b k"
    by (rule bb_extends_resolveKey [OF assms(1,2)])
  have "fst (resolveKey s b k) < length s"
    using resolveKey_le [of s b k] assms(2) by simp
  with assms(1,3) r show ?thesis
    by (auto simp: portType_def Let_def bb_extends_def split: if_splits)
qed

text \<open>setting the type of a key that has none\<close>

lemma map_of_update_other: "map_of (AList.update k v al) k' = (if k' = k then Some v else map_of al k')"
  by (simp add: update_conv')

lemma setPortType_extends:
  assumes "portType s b k = None"
  shows "bb_extends s (setPortType s b k ty)"
proof -
  let ?slot = "resolveKey s b k"
  show ?thesis
  proof (cases "fst ?slot < length s")
    case False
    then show ?thesis by (simp add: setPortType_def Let_def bb_extends_refl)
  next
    case True
    with assms have none: "map_of (bb_types (s ! fst ?slot)) (snd ?slot) = None"
      by (simp add: portType_def Let_def)
    show ?thesis
      unfolding bb_extends_def setPortType_def Let_def
      using True none
      by (auto simp: nth_list_update map_of_update_other)
  qed
qed

lemma setPortType_length: "length (setPortType s b k ty) = length s"
  by (simp add: setPortType_def Let_def)

lemma setPortType_portType:
  assumes "b < length s" and "portType s b k = None"
  shows "portType (setPortType s b k ty) b k = Some ty"
proof -
  let ?slot = "resolveKey s b k"
  have lt: "fst ?slot < length s" using resolveKey_le [of s b k] assms by simp
  have same: "resolveKey (setPortType s b k ty) b k = ?slot"
    by (rule bb_extends_resolveKey [OF setPortType_extends [OF assms(2)] assms(1)])
  show ?thesis
    using lt same
    by (simp add: portType_def Let_def setPortType_length)
       (simp add: setPortType_def Let_def map_of_update_other)
qed


lemma initPortType_cases:
  assumes "port_info (snd port_it) = Some info" and "map_of rp (fst port_it) = Some v"
    and "getRemappedKey (fst port_it) v = (True, key)"
  shows "initPortType rp bb port_it s =
           (case portType s bb key of
              None \<Rightarrow> Inr (setPortType s bb key info)
            | Some prev \<Rightarrow>
                if prev = info then Inr s
                else if fits_buffer 1024 (mismatch_message key prev info)
                  then Inl (TypeMismatchError key prev info)
                  else Inl BufferOverrun)"
  using assms by (simp add: initPortType_def Let_def split: option.splits)

lemma initPortType_extends:
  assumes "initPortType rp bb port_it s = Inr s'"
  shows "bb_extends s s' \<and> length s' = length s"
  using assms
  by (auto simp: initPortType_def Let_def bb_extends_refl setPortType_extends setPortType_length
        split: option.splits if_splits)

lemma forEach_initPortType_extends:
  assumes "forEach (initPortType rp bb) ps s = Inr s'"
  shows "bb_extends s s' \<and> length s' = length s"
  by (rule forEach_invariant [OF assms, where P = "\<lambda>x. bb_extends s x \<and> length x = length s"])
     (auto simp: bb_extends_refl dest!: initPortType_extends intro: bb_extends_trans)

lemma initPortType_records:
  assumes "initPortType rp bb port_it s = Inr s'" and "bb < length s"
    and "port_info (snd port_it) = Some info" and "map_of rp (fst port_it) = Some v"
    and "getRemappedKey (fst port_it) v = (True, key)"
  shows "portType s' bb key = Some info"
  using assms(1,2) unfolding initPortType_cases [OF assms(3-5)]
  by (auto split: option.splits if_splits simp: setPortType_portType)

lemma forEach_initPortType_records:
  assumes "forEach (initPortType rp bb) ps s = Inr s'" and "bb < length s"
    and "(p, port) \<in> set ps" and "port_info port = Some info" and "map_of rp p = Some v"
    and "getRemappedKey p v = (True, key)"
  shows "portType s' bb key = Some info"
  using assms(1,2,3)
proof (induction ps arbitrary: s)
  case Nil
  then show ?case by simp
next
  case (Cons x xs)
  from Cons.prems(1) obtain s1 where s1: "initPortType rp bb x s = Inr s1"
    and rest: "forEach (initPortType rp bb) xs s1 = Inr s'"
    by (auto split: sum.splits)
  from initPortType_extends [OF s1] Cons.prems(2) have len1: "bb < length s1" by simp
  show ?case
  proof (cases "x = (p, port)")
    case True
    from initPortType_records [OF s1 Cons.prems(2), of info v key] True assms(4-6)
    have "portType s1 bb key = Some info" by simp
    from bb_extends_portType [OF _ len1 this] forEach_initPortType_extends [OF rest]
    show ?thesis by blast
  next
    case False
    with Cons.prems(3) have "(p, port) \<in> set xs" by simp
    from Cons.IH [OF rest len1 this] show ?thesis .
  qed
qed

lemma makeNode_extends:
  assumes "makeNode visit f roots ID instance_name rp bb s = Inr (node, s')"
  shows "bb_extends s s' \<and> length s' = length s"
  using assms
  by (auto simp: makeNode_def Let_def bb_extends_refl split: if_splits option.splits sum.splits
        dest!: forEach_initPortType_extends)

lemma makeNode_records:
  assumes "makeNode visit f roots ID instance_name rp bb s = Inr (node, s')" and "bb < length s"
    and "ID \<in> set (builders f)" and "map_of (manifests f) ID = Some m"
    and "(p, port) \<in> set (ports m)" and "port_info port = Some info" and "map_of rp p = Some v"
    and "getRemappedKey p v = (True, key)"
  shows "portType s' bb key = Some info"
proof -
  from assms(1,3,4) have "forEach (initPortType rp bb) (ports m) s = Inr s'"
    by (auto simp: makeNode_def Let_def split: sum.splits)
  from forEach_initPortType_records [OF this assms(2,5-8)] show ?thesis .
qed

lemma portType_valid: "portType s bb key = Some ty \<Longrightarrow> bb < length s"
proof (rule ccontr)
  assume a: "portType s bb key = Some ty" and "\<not> bb < length s"
  then have "redirected s bb key = None" by (simp add: redirected_def)
  then have "resolveKey s bb key = (bb, key)" by (simp add: resolveKey_unfold [of s bb key])
  with a \<open>\<not> bb < length s\<close> show False by (simp add: portType_def Let_def)
qed

lemma createNodeFromXML_extends:
  assumes "createNodeFromXML visit f roots el bb parent t = Inr (node, t1)"
  shows "bb_extends (blackboard_stack t) (blackboard_stack t1)
       \<and> length (blackboard_stack t1) = length (blackboard_stack t)"
proof -
  from assms obtain ID instance_name stack ns where
    mk: "makeNode visit f roots ID instance_name (remappingParameters el) bb (blackboard_stack t) = Inr (node, stack)"
    and t1: "t1 = t\<lparr>blackboard_stack := stack, nodes := ns\<rparr>"
    by (rule createNodeFromXML_Inr)
  from makeNode_extends [OF mk] t1 show ?thesis by simp
qed

lemma createNodeFromXML_records:
  assumes "createNodeFromXML visit f roots el bb parent t = Inr (node, t1)"
    and "spec_binds f el key ty" and "bb < length (blackboard_stack t)"
  shows "portType (blackboard_stack t1) bb key = Some ty"
proof -
  from assms(1) obtain ID instance_name stack ns where
    id: "elementID el = Some ID"
    and mk: "makeNode visit f roots ID instance_name (remappingParameters el) bb (blackboard_stack t) = Inr (node, stack)"
    and t1: "t1 = t\<lparr>blackboard_stack := stack, nodes := ns\<rparr>"
    by (rule createNodeFromXML_Inr)
  from assms(2) id obtain m p port v where
    b: "ID \<in> set (builders f)" "map_of (manifests f) ID = Some m" "(p, port) \<in> set (ports m)"
      "port_info port = Some ty" "map_of (remappingParameters el) p = Some v"
      "getRemappedKey p v = (True, key)"
    by (auto simp: spec_binds_def)
  from makeNode_records [OF mk assms(3) b] t1 show ?thesis by simp
qed

lemma createNodeFromXML_conflict:
  assumes "spec_binds f el key ty" and "portType (blackboard_stack t) bb key = Some ty0" and "ty0 \<noteq> ty"
  shows "\<exists>e. createNodeFromXML visit f roots el bb parent t = Inl e"
proof (cases "createNodeFromXML visit f roots el bb parent t")
  case (Inl e)
  then show ?thesis by simp
next
  case (Inr r)
  obtain node t1 where r: "r = (node, t1)" by (cases r)
  note cn = Inr [unfolded r]
  from portType_valid [OF assms(2)] have bb: "bb < length (blackboard_stack t)" .
  from createNodeFromXML_records [OF cn assms(1) bb]
  have "portType (blackboard_stack t1) bb key = Some ty" .
  moreover from bb_extends_portType [OF _ bb assms(2)] createNodeFromXML_extends [OF cn]
  have "portType (blackboard_stack t1) bb key = Some ty0" by blast
  ultimately show ?thesis using assms(3) by simp
qed

lemma forEach_addRemap:
  "forEach addRemap rs bb = Inr bb' \<Longrightarrow>
     bb_parent bb' = bb_parent bb \<and> bb_types bb' = bb_types bb
   \<and> map (\<lambda>r. (Some (fst r), Some (snd r))) (bb_remapping bb') =
       map (\<lambda>r. (Some (fst r), Some (snd r))) (bb_remapping bb)
         @ map (\<lambda>e. (Attribute e ''internal'', Attribute e ''external'')) rs"
proof (induction rs arbitrary: bb)
  case Nil
  then show ?case by simp
next
  case (Cons r rs)
  from Cons.prems obtain b1 where b1: "addRemap r bb = Inr b1" and rest: "forEach addRemap rs b1 = Inr bb'"
    by (auto split: sum.splits)
  from b1 have "bb_parent b1 = bb_parent bb \<and> bb_types b1 = bb_types bb
      \<and> bb_remapping b1 = bb_remapping bb @ [(the (Attribute r ''internal''), the (Attribute r ''external''))]
      \<and> Attribute r ''internal'' \<noteq> None \<and> Attribute r ''external'' \<noteq> None"
    by (auto simp: addRemap_def addSubtreeRemapping_def split: option.splits)
  with Cons.IH [OF rest] show ?case by auto
qed

lemma pushSubtreeBlackboard_Inr:
  assumes "pushSubtreeBlackboard el t = Inr (b, t')"
  obtains new_bb where "blackboard_stack t \<noteq> []" "b = length (blackboard_stack t)"
    "t' = t\<lparr>blackboard_stack := blackboard_stack t @ [new_bb]\<rparr>"
    "bb_parent new_bb = Some (length (blackboard_stack t) - 1)" "bb_types new_bb = []"
    "map (\<lambda>r. (Some (fst r), Some (snd r))) (bb_remapping new_bb) =
       map (\<lambda>e. (Attribute e ''internal'', Attribute e ''external'')) (ChildElements ''remap'' el)"
proof -
  from assms obtain new_bb where ne: "blackboard_stack t \<noteq> []"
    and fe: "forEach addRemap (ChildElements ''remap'' el) (Blackboard_create (length (blackboard_stack t) - 1)) = Inr new_bb"
    and b: "b = length (blackboard_stack t)" and t': "t' = t\<lparr>blackboard_stack := blackboard_stack t @ [new_bb]\<rparr>"
    by (auto simp: pushSubtreeBlackboard_def Let_def split: if_splits sum.splits)
  from forEach_addRemap [OF fe] have "bb_parent new_bb = Some (length (blackboard_stack t) - 1)"
    "bb_types new_bb = []"
    "map (\<lambda>r. (Some (fst r), Some (snd r))) (bb_remapping new_bb) =
       map (\<lambda>e. (Attribute e ''internal'', Attribute e ''external'')) (ChildElements ''remap'' el)"
    by (simp_all add: Blackboard_create_def)
  with ne b t' show ?thesis by (rule that)
qed

lemma pushSubtreeBlackboard_extends:
  assumes "pushSubtreeBlackboard el t = Inr (b, t')"
  shows "bb_extends (blackboard_stack t) (blackboard_stack t')"
    and "length (blackboard_stack t') = Suc (length (blackboard_stack t))"
proof -
  from assms obtain new_bb where
    t': "t' = t\<lparr>blackboard_stack := blackboard_stack t @ [new_bb]\<rparr>"
    and p: "bb_parent new_bb = Some (length (blackboard_stack t) - 1)"
    by (rule pushSubtreeBlackboard_Inr)
  show "bb_extends (blackboard_stack t) (blackboard_stack t')"
    using t' p by (auto simp: bb_extends_def nth_append)
  show "length (blackboard_stack t') = Suc (length (blackboard_stack t))"
    using t' by simp
qed

lemma attachChild_types:
  assumes "attachChild parent (length ns) ns = Inr ns'"
  shows "map node_type ns' = map node_type ns"
proof (rule nth_equalityI)
  show "length (map node_type ns') = length (map node_type ns)"
    using attachChild_Inr(1) [OF assms] by simp
next
  fix i assume "i < length (map node_type ns')"
  then have i: "i < length ns" using attachChild_Inr(1) [OF assms] by simp
  have "node_type (ns' ! i) = node_type (ns ! i)"
  proof (cases "Some i = parent")
    case True
    with attachChild_Inr(3) [OF assms, of i] show ?thesis by (simp add: same_node_def)
  next
    case False
    with attachChild_Inr(2) [OF assms i] show ?thesis by simp
  qed
  with i attachChild_Inr(1) [OF assms] show "map node_type ns' ! i = map node_type ns ! i" by simp
qed

lemma count_subtrees_types: "count_subtrees ns = length (filter (\<lambda>ty. ty = SUBTREE) (map node_type ns))"
  by (simp add: count_subtrees_def filter_map comp_def)

lemma create_recursiveStep_stack:
  "create_recursiveStep visit fuel f roots bb parent el t = Inr t' \<Longrightarrow>
     bb_extends (blackboard_stack t) (blackboard_stack t')
   \<and> length (blackboard_stack t') + count_subtrees (nodes t) = length (blackboard_stack t) + count_subtrees (nodes t')"
proof (induction fuel arbitrary: bb parent el t t')
  case 0
  then show ?case by simp
next
  case (Suc n)
  let ?Q = "\<lambda>a b. bb_extends (blackboard_stack a) (blackboard_stack b)
   \<and> length (blackboard_stack b) + count_subtrees (nodes a) = length (blackboard_stack a) + count_subtrees (nodes b)"
  have Q_trans: "?Q a c" if "?Q a b" "?Q b c" for a b c
    using that bb_extends_trans [of "blackboard_stack a" "blackboard_stack b" "blackboard_stack c"] by simp
  from Suc.prems obtain node t1 where
    cn: "createNodeFromXML visit f roots el bb parent t = Inr (node, t1)"
    and sub: "node_type node = SUBTREE \<longrightarrow>
           (\<exists>new_bb t3 root_el.
             pushSubtreeBlackboard el (t1\<lparr>nodes := nodes t1 @ [node]\<rparr>) = Inr (new_bb, t3)
           \<and> treeRootElement roots (node_name node) = Inr root_el
           \<and> create_recursiveStep visit n f roots new_bb (Some (length (nodes t1))) root_el t3 = Inr t')"
    and kids: "node_type node \<noteq> SUBTREE \<longrightarrow>
           forEach (\<lambda>c s. create_recursiveStep visit n f roots bb (Some (length (nodes t1))) c s)
             (el_children el) (t1\<lparr>nodes := nodes t1 @ [node]\<rparr>) = Inr t'"
    by (rule create_recursiveStep_Suc_Inr)
  from cn obtain ID instance_name stack ns where
    at: "attachChild parent (length (nodes t)) (nodes t) = Inr ns"
    and t1: "t1 = t\<lparr>blackboard_stack := stack, nodes := ns\<rparr>"
    by (rule createNodeFromXML_Inr)
  have cnt1: "count_subtrees (nodes t1) = count_subtrees (nodes t)"
    using attachChild_types [OF at] t1 by (simp add: count_subtrees_types)
  let ?t2 = "t1\<lparr>nodes := nodes t1 @ [node]\<rparr>"
  have cnt2: "count_subtrees (nodes ?t2) = count_subtrees (nodes t) + (if node_type node = SUBTREE then 1 else 0)"
    using cnt1 by (simp add: count_subtrees_def)
  have ext1: "bb_extends (blackboard_stack t) (blackboard_stack ?t2)"
    "length (blackboard_stack ?t2) = length (blackboard_stack t)"
    using createNodeFromXML_extends [OF cn] by simp_all
  show ?case
  proof (cases "node_type node = SUBTREE")
    case True
    with sub obtain new_bb t3 root_el where
      push: "pushSubtreeBlackboard el ?t2 = Inr (new_bb, t3)"
      and step: "create_recursiveStep visit n f roots new_bb (Some (length (nodes t1))) root_el t3 = Inr t'"
      by blast
    have n3: "nodes t3 = nodes ?t2"
      using pushSubtreeBlackboard_nodes [OF push] by simp
    have "?Q t t3"
      using ext1 cnt2 True pushSubtreeBlackboard_extends [OF push] n3
        bb_extends_trans [of "blackboard_stack t" "blackboard_stack ?t2" "blackboard_stack t3"]
      by simp
    from Q_trans [OF this Suc.IH [OF step]] show ?thesis .
  next
    case False
    have Q2: "?Q t ?t2" using ext1 cnt2 False by simp
    show ?thesis
    proof (rule forEach_invariant [OF kids [rule_format, OF False], where P = "\<lambda>s. ?Q t s"])
      show "?Q t ?t2" by (rule Q2)
    next
      fix c a b
      assume "create_recursiveStep visit n f roots bb (Some (length (nodes t1))) c a = Inr b" and a: "?Q t a"
      from Q_trans [OF a Suc.IH [OF this(1)]] show "?Q t b" .
    qed
  qed
qed







lemma create_recursiveStep_fails:
  assumes "createNodeFromXML visit f roots el bb parent t = Inl e"
  shows "\<exists>e'. create_recursiveStep visit fuel f roots bb parent el t = Inl e'"
  using assms by (cases fuel) simp_all

section \<open>What the validator guarantees to the instantiator\<close>




lemma umap_insert_dom: "map_of m k' \<noteq> None \<Longrightarrow> map_of (umap_insert k v m) k' \<noteq> None"
  using umap_insert_keeps [of m k'] by auto





































text \<open>
  The reconciliation of port types, as the code has it.  For a manifest port with a type
  descriptor whose remapping value is the blackboard reference \<open>{key}\<close>, one round of the
  loop sets the port's type for \<open>key\<close> when the blackboard has none (after which the
  blackboard has it), goes on when the type found is the port's, and otherwise formats the
  message of the mismatch: it throws the type mismatch error with the key and both type
  names when the message has room in the buffer, and writes past the end of the buffer
  when it has not.  Hence: once a node has been made that binds a port of type \<open>ty1\<close> to
  \<open>key\<close>, the blackboard has \<open>ty1\<close> for \<open>key\<close>; this stays so whatever is made
  afterwards; and making a node that binds a port of another type to \<open>key\<close> fails.
\<close>

theorem port_type_reconciliation:
  "(port_info (snd port_it) = Some info \<and> map_of remapping_parameters (fst port_it) = Some v
      \<and> getRemappedKey (fst port_it) v = (True, key) \<longrightarrow>
      initPortType remapping_parameters bb port_it stack =
        (case portType stack bb key of
           None \<Rightarrow> Inr (setPortType stack bb key info)
         | Some prev \<Rightarrow>
             if prev = info then Inr stack
             else if fits_buffer 1024 (mismatch_message key prev info)
               then Inl (TypeMismatchError key prev info)
               else Inl BufferOverrun)
      \<and> (bb < length stack \<and> portType stack bb key = None \<longrightarrow>
            portType (setPortType stack bb key info) bb key = Some info))
   \<and> (createNodeFromXML visit factory roots el1 bb parent1 t = Inr (node1, t1) \<and> spec_binds factory el1 key ty1
        \<and> bb < length (blackboard_stack t) \<longrightarrow>
      portType (blackboard_stack t1) bb key = Some ty1)
   \<and> (create_recursiveStep visit fuel factory roots bb' parent' el' t2 = Inr t3
        \<and> portType (blackboard_stack t2) bb key = Some ty1 \<longrightarrow>
      portType (blackboard_stack t3) bb key = Some ty1)
   \<and> (spec_binds factory el2 key ty2 \<and> portType (blackboard_stack t4) bb key = Some ty1 \<and> ty1 \<noteq> ty2 \<longrightarrow>
      (\<exists>e. createNodeFromXML visit factory roots el2 bb parent2 t4 = Inl e)
      \<and> (\<exists>e. create_recursiveStep visit fuel2 factory roots bb parent2 el2 t4 = Inl e))"
proof (intro conjI impI; (elim conjE)?)
  assume "port_info (snd port_it) = Some info" "map_of remapping_parameters (fst port_it) = Some v"
    "getRemappedKey (fst port_it) v = (True, key)"
  then show "initPortType remapping_parameters bb port_it stack =
        (case portType stack bb key of
           None \<Rightarrow> Inr (setPortType stack bb key info)
         | Some prev \<Rightarrow>
             if prev = info then Inr stack
             else if fits_buffer 1024 (mismatch_message key prev info)
               then Inl (TypeMismatchError key prev info)
               else Inl BufferOverrun)"
    by (rule initPortType_cases)
next
  assume "bb < length stack" "portType stack bb key = None"
  then show "portType (setPortType stack bb key info) bb key = Some info"
    by (rule setPortType_portType)
next
  assume "createNodeFromXML visit factory roots el1 bb parent1 t = Inr (node1, t1)" "spec_binds factory el1 key ty1"
    "bb < length (blackboard_stack t)"
  then show "portType (blackboard_stack t1) bb key = Some ty1"
    by (rule createNodeFromXML_records)
next
  assume step: "create_recursiveStep visit fuel factory roots bb' parent' el' t2 = Inr t3"
    and ty: "portType (blackboard_stack t2) bb key = Some ty1"
  from create_recursiveStep_stack [OF step] have "bb_extends (blackboard_stack t2) (blackboard_stack t3)"
    by simp
  from bb_extends_portType [OF this portType_valid [OF ty] ty]
  show "portType (blackboard_stack t3) bb key = Some ty1" .
next
  assume a: "spec_binds factory el2 key ty2" "portType (blackboard_stack t4) bb key = Some ty1" "ty1 \<noteq> ty2"
  from createNodeFromXML_conflict [OF a]
  show c: "\<exists>e. createNodeFromXML visit factory roots el2 bb parent2 t4 = Inl e" .
  then show "\<exists>e. create_recursiveStep visit fuel2 factory roots bb parent2 el2 t4 = Inl e"
    using create_recursiveStep_fails by blast
qed

lemma s5_binds_a: "spec_binds demo_factory s5_port_a ''shared'' ''int32''"
  by (simp add: spec_binds_def s5_port_a_def elementID_def demo_factory_def remappingParameters_def
        getRemappedKey_def Attribute_def)

lemma s5_binds_b: "spec_binds demo_factory s5_port_b ''shared'' ''string''"
  by (simp add: spec_binds_def s5_port_b_def elementID_def demo_factory_def remappingParameters_def
        getRemappedKey_def Attribute_def)

theorem port_type_reconciliation_witness:
  "initPortType [(''y'', ''{shared}'')] 0 (''y'', \<lparr>port_type = INPUT, port_info = Some ''string''\<rparr>)
       (blackboard_stack s5_fourth) = Inl (TypeMismatchError ''shared'' ''int32'' ''string'')
   \<and> initPortType [(''x'', ''{shared}'')] 0 (''x'', \<lparr>port_type = INPUT, port_info = Some ''int32''\<rparr>)
       (blackboard_stack s5_first) = Inr (blackboard_stack s5_second)
   \<and> createNodeFromXML in_order demo_factory (tree_roots s5_state) s5_port_a 0 (Some 0) s5_first
       = Inr (last (nodes s5_third), s5_second)
   \<and> portType (blackboard_stack s5_second) 0 ''shared'' = Some ''int32''
   \<and> create_recursiveStep in_order 1 demo_factory (tree_roots s5_state) 0 (Some 0)
        (XMLElement ''Action'' [(''ID'', ''Ping'')] []) s5_third = Inr s5_fourth
   \<and> portType (blackboard_stack s5_fourth) 0 ''shared'' = Some ''int32''
   \<and> createNodeFromXML in_order demo_factory (tree_roots s5_state) s5_port_b 0 (Some 0) s5_fourth
       = Inl (TypeMismatchError ''shared'' ''int32'' ''string'')
   \<and> instantiateTree in_order 2 demo_factory s5_state (Some root_bb) = Inl (TypeMismatchError ''shared'' ''int32'' ''string'')"
proof -
  have e1: "portType (blackboard_stack s5_fourth) 0 ''shared'' = Some ''int32''"
    by code_simp
  have e2: "portType (blackboard_stack s5_first) 0 ''shared'' = None"
    by code_simp
  have e3: "setPortType (blackboard_stack s5_first) 0 ''shared'' ''int32'' = blackboard_stack s5_second"
    by code_simp
  have fits: "fits_buffer 1024 (mismatch_message ''shared'' ''int32'' ''string'')"
    by code_simp
  have g1: "getRemappedKey ''y'' ''{shared}'' = (True, ''shared'')" "getRemappedKey ''x'' ''{shared}'' = (True, ''shared'')"
    by code_simp+
  have cn1: "createNodeFromXML in_order demo_factory (tree_roots s5_state) s5_port_a 0 (Some 0) s5_first
       = Inr (last (nodes s5_third), s5_second)"
    by code_simp
  have len: "0 < length (blackboard_stack s5_first)"
    by code_simp
  have st: "create_recursiveStep in_order 1 demo_factory (tree_roots s5_state) 0 (Some 0)
        (XMLElement ''Action'' [(''ID'', ''Ping'')] []) s5_third = Inr s5_fourth"
    by code_simp
  have th: "blackboard_stack s5_third = blackboard_stack s5_second"
    by code_simp
  have cn2: "createNodeFromXML in_order demo_factory (tree_roots s5_state) s5_port_b 0 (Some 0) s5_fourth
       = Inl (TypeMismatchError ''shared'' ''int32'' ''string'')"
    by code_simp
  have inst: "instantiateTree in_order 2 demo_factory s5_state (Some root_bb) = Inl (TypeMismatchError ''shared'' ''int32'' ''string'')"
    by code_simp
  note r1 = port_type_reconciliation [of "(''y'', \<lparr>port_type = INPUT, port_info = Some ''string''\<rparr>)" "''string''"
      "[(''y'', ''{shared}'')]" "''{shared}''" "''shared''" 0 "blackboard_stack s5_fourth"
      in_order demo_factory "tree_roots s5_state" s5_port_a "Some 0" s5_first "last (nodes s5_third)" s5_second "''int32''"
      1 0 "Some 0" "XMLElement ''Action'' [(''ID'', ''Ping'')] []" s5_third s5_fourth
      s5_port_b "''string''" s5_fourth "Some 0" 1]
  note r2 = port_type_reconciliation [of "(''x'', \<lparr>port_type = INPUT, port_info = Some ''int32''\<rparr>)" "''int32''"
      "[(''x'', ''{shared}'')]" "''{shared}''" "''shared''" 0 "blackboard_stack s5_first"]
  have hy: "port_info (snd (''y'', \<lparr>port_type = INPUT, port_info = Some ''string''\<rparr>)) = Some ''string''"
    "map_of [(''y'', ''{shared}'')] (fst (''y'', \<lparr>port_type = INPUT, port_info = Some ''string''\<rparr>)) = Some ''{shared}''"
    "getRemappedKey (fst (''y'', \<lparr>port_type = INPUT, port_info = Some ''string''\<rparr>)) ''{shared}'' = (True, ''shared'')"
    using g1 by simp_all
  have hx: "port_info (snd (''x'', \<lparr>port_type = INPUT, port_info = Some ''int32''\<rparr>)) = Some ''int32''"
    "map_of [(''x'', ''{shared}'')] (fst (''x'', \<lparr>port_type = INPUT, port_info = Some ''int32''\<rparr>)) = Some ''{shared}''"
    "getRemappedKey (fst (''x'', \<lparr>port_type = INPUT, port_info = Some ''int32''\<rparr>)) ''{shared}'' = (True, ''shared'')"
    using g1 by simp_all
  from r1 hy have "initPortType [(''y'', ''{shared}'')] 0 (''y'', \<lparr>port_type = INPUT, port_info = Some ''string''\<rparr>)
       (blackboard_stack s5_fourth) =
        (case portType (blackboard_stack s5_fourth) 0 ''shared'' of
           None \<Rightarrow> Inr (setPortType (blackboard_stack s5_fourth) 0 ''shared'' ''string'')
         | Some prev \<Rightarrow> if prev = ''string'' then Inr (blackboard_stack s5_fourth)
                        else if fits_buffer 1024 (mismatch_message ''shared'' prev ''string'')
                          then Inl (TypeMismatchError ''shared'' prev ''string'')
                          else Inl BufferOverrun)"
    by blast
  then have a: "initPortType [(''y'', ''{shared}'')] 0 (''y'', \<lparr>port_type = INPUT, port_info = Some ''string''\<rparr>)
       (blackboard_stack s5_fourth) = Inl (TypeMismatchError ''shared'' ''int32'' ''string'')"
    by (simp add: e1 fits)
  from r2 hx have "initPortType [(''x'', ''{shared}'')] 0 (''x'', \<lparr>port_type = INPUT, port_info = Some ''int32''\<rparr>)
       (blackboard_stack s5_first) =
        (case portType (blackboard_stack s5_first) 0 ''shared'' of
           None \<Rightarrow> Inr (setPortType (blackboard_stack s5_first) 0 ''shared'' ''int32'')
         | Some prev \<Rightarrow> if prev = ''int32'' then Inr (blackboard_stack s5_first)
                        else if fits_buffer 1024 (mismatch_message ''shared'' prev ''int32'')
                          then Inl (TypeMismatchError ''shared'' prev ''int32'')
                          else Inl BufferOverrun)"
    by blast
  then have b: "initPortType [(''x'', ''{shared}'')] 0 (''x'', \<lparr>port_type = INPUT, port_info = Some ''int32''\<rparr>)
       (blackboard_stack s5_first) = Inr (blackboard_stack s5_second)"
    by (simp add: e2 e3)
  from r1 cn1 s5_binds_a len have c: "portType (blackboard_stack s5_second) 0 ''shared'' = Some ''int32''"
    by blast
  then have c': "portType (blackboard_stack s5_third) 0 ''shared'' = Some ''int32''"
    by (simp only: th)
  from r1 st c' have d: "portType (blackboard_stack s5_fourth) 0 ''shared'' = Some ''int32''"
    by blast
  have ne: "''int32'' \<noteq> ''string''" by simp
  from r1 s5_binds_b d ne have "\<exists>e. createNodeFromXML in_order demo_factory (tree_roots s5_state) s5_port_b 0 (Some 0) s5_fourth = Inl e"
    by blast
  from a b cn1 c st d cn2 inst show ?thesis by blast
qed

text \<open>
  C3 fails where the message of the mismatch has no room.  The second node that binds a
  port to the key finds another type there, as the claim says, and the code sets out to
  throw the error that names both types; but it formats the message into 1024 bytes
  without looking at its length, and with a long key, or long type names, it writes past
  the end of the buffer.  With the key \<open>shared\<close> the same tree fails with the type
  mismatch error.
\<close>

theorem type_mismatch_message_overruns_buffer:
  "loadFromText 1 plain_world demo_factory long_key_doc (Pimpl_init plain_world) = Inr long_key_state
   \<and> length (mismatch_message long_key ''int32'' ''string'') = 1042
   \<and> instantiateTree in_order 2 demo_factory long_key_state (Some root_bb) = Inl BufferOverrun
   \<and> instantiateTree in_order 2 demo_factory s5_state (Some root_bb)
       = Inl (TypeMismatchError ''shared'' ''int32'' ''string'')"
  by code_simp

section \<open>The errors of the instantiator\<close>












section \<open>What an accepted document can still fail with\<close>




end
